theory Spec2Isabelle
  imports Main "HOL-Library.Sublist"
begin

section \<open>Python values and exceptions\<close>

text \<open>
  Both components are Python. An exception is a value: \<open>PyExc cls msg\<close> is a Python
  exception with its class name and the text that \<open>str(ex)\<close> returns; in the contents
  manager, \<open>HTTPError code\<close> is tornado's \<open>web.HTTPError\<close> with its status code and
  \<open>Raised e\<close> is any other exception.
\<close>

datatype pyexc = PyExc string string

datatype exn = HTTPError nat | Raised pyexc

fun str_exn :: "pyexc \<Rightarrow> string" where
  "str_exn (PyExc cls msg) = msg"

text \<open>The two quotation marks, for the messages that contain them.\<close>

definition sq :: string where
  "sq = [CHR 0x27]"

definition dq :: string where
  "dq = [CHR 0x22]"


section \<open>The kernel extension (sparkconnector/connector.py)\<close>

subsection \<open>Objects of the user namespace and messages\<close>

text \<open>
  A \<open>SparkConf\<close> is its table of settings (\<open>conf.set(k, v)\<close> stores \<open>str(v)\<close>,
  \<open>conf.get(k)\<close> is \<open>None\<close> for a missing key). \<open>PyObject cls truthy dbg\<close> is any
  other object: its class name, its truth value and whether it has a callable
  \<open>toDebugString\<close> attribute.
\<close>

type_synonym spark_conf = "string \<rightharpoonup> string"

datatype pyobj =
    PyNone
  | PyBool bool
  | PyInt int
  | PyStr string
  | SparkConfObj spark_conf
  | SparkContextObj nat
  | SparkSessionObj nat
  | PyObject string bool bool

fun truthy :: "pyobj \<Rightarrow> bool" where
  "truthy PyNone = False"
| "truthy (PyBool b) = b"
| "truthy (PyInt i) = (i \<noteq> 0)"
| "truthy (PyStr s) = (s \<noteq> [])"
| "truthy (SparkConfObj c) = True"
| "truthy (SparkContextObj h) = True"
| "truthy (SparkSessionObj h) = True"
| "truthy (PyObject cls t dbg) = t"

fun class_name :: "pyobj \<Rightarrow> string" where
  "class_name PyNone = ''NoneType''"
| "class_name (PyBool b) = ''bool''"
| "class_name (PyInt i) = ''int''"
| "class_name (PyStr s) = ''str''"
| "class_name (SparkConfObj c) = ''SparkConf''"
| "class_name (SparkContextObj h) = ''SparkContext''"
| "class_name (SparkSessionObj h) = ''SparkSession''"
| "class_name (PyObject cls t dbg) = cls"

fun has_toDebugString :: "pyobj \<Rightarrow> bool" where
  "has_toDebugString (SparkConfObj c) = True"
| "has_toDebugString (PyObject cls t dbg) = dbg"
| "has_toDebugString v = False"


text \<open>A message to the front end is a dict literal, kept in the order it is written.\<close>

type_synonym message = "(string \<times> pyobj) list"

text \<open>
  The data of a comm message, \<open>msg['content']['data']\<close>: a missing key is \<open>None\<close>
  here and a \<open>KeyError\<close> where the handler subscripts it.
\<close>

record comm_data =
  action :: "string option"
  password :: "string option"
  options :: "(string \<times> string) list option"

subsection \<open>The outside world of one handler call\<close>

datatype connect_result = ConnOk | ConnSocketError | ConnRaises pyexc

text \<open>
  What the handler reads from outside the kernel while it handles one message:
  the environment variables, the exit status of \<open>kinit\<close> for a password piped to it,
  the exit status of \<open>klist -s\<close>, Python's \<open>int()\<close> on a string, the outcome of
  \<open>socket.connect\<close> to a port of this host, the constructors \<open>SparkConf()\<close>,
  \<open>SparkContext(conf)\<close> and \<open>SparkSession(sc)\<close>, and the string formatting of the standard library
  (\<open>Formatter().parse\<close> followed by \<open>value.format\<close> with the environment's values).
\<close>

record world =
  environ :: "string \<rightharpoonup> string"
  kinit :: "string \<Rightarrow> int"
  klist :: int
  py_int :: "string option \<Rightarrow> pyexc + int"
  socket_connect :: "int \<Rightarrow> connect_result"
  new_SparkConf :: "pyexc + spark_conf"
  new_SparkContext :: "spark_conf \<Rightarrow> pyexc + nat"
  new_SparkSession :: "nat \<Rightarrow> pyexc + nat"
  format_value :: "(string \<rightharpoonup> string) \<Rightarrow> string \<Rightarrow> pyexc + string"

subsection \<open>The connector object\<close>

text \<open>
  The fields of \<open>SparkConnector\<close> that the handler reads or writes, the user namespace
  of the shell, and three histories: the messages sent over the comm, the passwords
  piped to \<open>kinit\<close> and the dicts given to \<open>ipython.push\<close>.
\<close>

record connector =
  connected :: bool
  needs_auth :: bool
  cluster_name :: "string option"
  log4j_file :: string
  user_ns :: "string \<rightharpoonup> pyobj"
  sent :: "message list"
  kinit_calls :: "string list"
  push_calls :: "(string \<times> pyobj) list list"

definition init :: "world \<Rightarrow> string \<Rightarrow> (string \<rightharpoonup> pyobj) \<Rightarrow> connector" where
  "init w log4j ns =
     \<lparr> connected = False,
       needs_auth = (environ w ''SPARK_CLUSTER_NAME'' = Some ''nxcals''),
       cluster_name = environ w ''SPARK_CLUSTER_NAME'',
       log4j_file = log4j,
       user_ns = ns,
       sent = [],
       kinit_calls = [],
       push_calls = [] \<rparr>"

definition send :: "message \<Rightarrow> connector \<Rightarrow> connector" where
  "send msg c = c\<lparr>sent := sent c @ [msg]\<rparr>"

definition send_ok :: "string \<Rightarrow> connector \<Rightarrow> connector" where
  "send_ok page c = send [(''msgtype'', PyStr page)] c"

definition send_error :: "string \<Rightarrow> string \<Rightarrow> connector \<Rightarrow> connector" where
  "send_error page err c = send [(''msgtype'', PyStr page), (''error'', PyStr err)] c"

definition push :: "(string \<times> pyobj) list \<Rightarrow> connector \<Rightarrow> connector" where
  "push vars c =
     c\<lparr>user_ns := (\<lambda>k. case map_of vars k of Some v \<Rightarrow> Some v | None \<Rightarrow> user_ns c k),
       push_calls := push_calls c @ [vars]\<rparr>"

subsection \<open>is_port_in_use\<close>

definition is_port_in_use :: "world \<Rightarrow> pyexc + bool" where
  "is_port_in_use w =
     (case py_int w (environ w ''SPARK_PORT_1'') of
        Inl e \<Rightarrow> Inl e
      | Inr port \<Rightarrow>
          (case socket_connect w port of
             ConnOk \<Rightarrow> Inr True
           | ConnSocketError \<Rightarrow> Inr False
           | ConnRaises e \<Rightarrow> Inl e))"

subsection \<open>configure\<close>

definition str_of_opt :: "string option \<Rightarrow> string" where
  "str_of_opt v = (case v of None \<Rightarrow> ''None'' | Some s \<Rightarrow> s)"

definition analytics_extra_class :: string where
  "analytics_extra_class =
     ''/eos/project/s/swan/public/hadoop-mapreduce-client-core-2.6.0-cdh5.7.6.jar''"

text \<open>
  The loop over \<open>opts['options'].items()\<close>. The settings table is updated in place, so
  the table reached so far is returned beside the exception when a value fails to format.
\<close>

fun configure_options ::
  "world \<Rightarrow> (string \<times> string) list \<Rightarrow> spark_conf \<Rightarrow> string \<Rightarrow> string \<Rightarrow>
     spark_conf \<times> (pyexc + string \<times> string)" where
  "configure_options w [] conf java cp = (conf, Inr (java, cp))"
| "configure_options w ((name, val) # rest) conf java cp =
     (case format_value w (environ w) val of
        Inl e \<Rightarrow> (conf, Inl e)
      | Inr v \<Rightarrow>
          if name = ''spark.driver.extraJavaOptions''
          then configure_options w rest conf (v @ '' '' @ java) cp
          else if name = ''spark.driver.extraClassPath''
          then configure_options w rest conf java (cp @ '':'' @ v)
          else configure_options w rest (conf(name \<mapsto> v)) java cp)"

definition configure ::
  "world \<Rightarrow> string \<Rightarrow> spark_conf \<Rightarrow> comm_data \<Rightarrow> spark_conf \<times> (pyexc + unit)" where
  "configure w log4j conf0 opts =
     (let conf1 = conf0
            (''spark.driver.host'' \<mapsto> str_of_opt (environ w ''SERVER_HOSTNAME''),
             ''spark.driver.port'' \<mapsto> str_of_opt (environ w ''SPARK_PORT_1''),
             ''spark.blockManager.port'' \<mapsto> str_of_opt (environ w ''SPARK_PORT_2''),
             ''spark.ui.port'' \<mapsto> str_of_opt (environ w ''SPARK_PORT_3''),
             ''spark.master'' \<mapsto> ''yarn'',
             ''spark.authenticate'' \<mapsto> ''True'',
             ''spark.network.crypto.enabled'' \<mapsto> ''True'',
             ''spark.authenticate.enableSaslEncryption'' \<mapsto> ''True'');
          java0 = ''-Dlog4j.configuration=file:'' @ log4j;
          cp0 = (case conf1 ''spark.driver.extraClassPath'' of
                   None \<Rightarrow> analytics_extra_class
                 | Some p \<Rightarrow> if p = [] then analytics_extra_class
                             else p @ '':'' @ analytics_extra_class)
      in case configure_options w (case options opts of None \<Rightarrow> [] | Some os \<Rightarrow> os)
                conf1 java0 cp0 of
           (conf2, Inl e) \<Rightarrow> (conf2, Inl e)
         | (conf2, Inr (java, cp)) \<Rightarrow>
             (case (case conf2 ''spark.executorEnv.LD_LIBRARY_PATH'' of
                      None \<Rightarrow> Inr (environ w ''LD_LIBRARY_PATH'')
                    | Some l \<Rightarrow>
                        if l = [] then Inr (environ w ''LD_LIBRARY_PATH'')
                        else (case environ w ''LD_LIBRARY_PATH'' of
                                None \<Rightarrow> Inl (PyExc ''TypeError''
                                  (''can only concatenate str (not '' @ dq @ ''NoneType'' @ dq @ '') to str''))
                              | Some e \<Rightarrow> Inr (Some (l @ '':'' @ e)))) of
                Inl e \<Rightarrow> (conf2, Inl e)
              | Inr ld \<Rightarrow>
                  (let conf3 = conf2
                         (''spark.driver.extraJavaOptions'' \<mapsto> java,
                          ''spark.driver.extraClassPath'' \<mapsto> cp,
                          ''spark.executorEnv.LD_LIBRARY_PATH'' \<mapsto> str_of_opt ld);
                       app = (case conf3 ''spark.app.name'' of
                                None \<Rightarrow> ''pyspark_shell_swan''
                              | Some a \<Rightarrow> if a = [] then ''pyspark_shell_swan''
                                          else a @ ''_swan'')
                   in (conf3(''spark.app.name'' \<mapsto> app), Inr ()))))"

subsection \<open>handle_comm_message\<close>

definition no_toDebugString :: "pyobj \<Rightarrow> pyexc" where
  "no_toDebugString v =
     PyExc ''AttributeError''
       (sq @ class_name v @ sq @ '' object has no attribute '' @ sq @ ''toDebugString'' @ sq)"

text \<open>
  The body of the \<open>try\<close> of the connect action, up to the point where it either returns,
  raises into the \<open>except\<close> clause, or has a configured \<open>conf\<close>. A conf that is an
  object of the user namespace is changed in place by \<open>configure\<close>, so the namespace
  entry follows it, also when a later step raises.
\<close>

definition store_conf :: "bool \<Rightarrow> spark_conf \<Rightarrow> connector \<Rightarrow> connector" where
  "store_conf existing conf c =
     (if existing then c\<lparr>user_ns := (user_ns c)(''swan_spark_conf'' \<mapsto> SparkConfObj conf)\<rparr>
      else c)"

definition session_vars :: "spark_conf \<Rightarrow> nat \<Rightarrow> nat \<Rightarrow> (string \<times> pyobj) list" where
  "session_vars conf sc spark =
     [(''swan_spark_conf'', SparkConfObj conf), (''sc'', SparkContextObj sc),
      (''spark'', SparkSessionObj spark)]"

definition connect_session ::
  "world \<Rightarrow> comm_data \<Rightarrow> bool \<Rightarrow> spark_conf \<Rightarrow> connector \<Rightarrow> connector" where
  "connect_session w d existing conf0 c =
     (case configure w (log4j_file c) conf0 d of
        (conf, Inl e) \<Rightarrow> send_error ''sparkconn-config'' (str_exn e) (store_conf existing conf c)
      | (conf, Inr u) \<Rightarrow>
          (let c1 = store_conf existing conf c in
           case new_SparkContext w conf of
             Inl e \<Rightarrow> send_error ''sparkconn-config'' (str_exn e) c1
           | Inr sc \<Rightarrow>
               (case new_SparkSession w sc of
                  Inl e \<Rightarrow> send_error ''sparkconn-config'' (str_exn e) c1
                | Inr spark \<Rightarrow>
                    (send_ok ''sparkconn-connected''
                       (push (session_vars conf sc spark) c1))
                    \<lparr>connected := True\<rparr>)))"

text \<open>The \<open>else\<close> branch of the \<open>try\<close>: no usable conf in the namespace, a new one is made.\<close>

definition connect_fresh :: "world \<Rightarrow> comm_data \<Rightarrow> connector \<Rightarrow> connector" where
  "connect_fresh w d c =
     (case new_SparkConf w of
        Inl e \<Rightarrow> send_error ''sparkconn-config'' (str_exn e) c
      | Inr conf \<Rightarrow> connect_session w d False conf c)"

definition handle_connect :: "world \<Rightarrow> comm_data \<Rightarrow> connector \<Rightarrow> pyexc + connector" where
  "handle_connect w d c =
     (if connected c then Inr (send_ok ''sparkconn-connected'' c)
      else if needs_auth c \<and> \<not> klist w = 0
      then Inr (send_error ''sparkconn-auth'' ''No valid credentials provided.'' c)
      else
        (case is_port_in_use w of
           Inl e \<Rightarrow> Inl e
         | Inr True \<Rightarrow>
             Inr (send_error ''sparkconn-config''
               ''You already opened a Spark connection in this session. Please close it first if you want to open a new one.''
               c)
         | Inr False \<Rightarrow>
             (case user_ns c ''swan_spark_conf'' of
                None \<Rightarrow> Inr (connect_fresh w d c)
              | Some v \<Rightarrow>
                  if truthy v then
                    (if \<not> has_toDebugString v
                     then Inr (send_error ''sparkconn-config'' (str_exn (no_toDebugString v)) c)
                     else
                       (case v of
                          SparkConfObj conf \<Rightarrow> Inr (connect_session w d True conf c)
                        | _ \<Rightarrow>
                            Inr (send_error ''sparkconn-config''
                              (''There is already a '' @ dq @ ''swan_spark_conf'' @ dq @ '' variable defined and is not of type SparkConf.'')
                              c)))
                  else Inr (connect_fresh w d c))))"

definition handle_auth :: "world \<Rightarrow> comm_data \<Rightarrow> connector \<Rightarrow> pyexc + connector" where
  "handle_auth w d c =
     (case password d of
        None \<Rightarrow> Inl (PyExc ''KeyError'' (sq @ ''password'' @ sq))
      | Some auth_kinit \<Rightarrow>
          (let c1 = c\<lparr>kinit_calls := kinit_calls c @ [auth_kinit]\<rparr> in
           if kinit w auth_kinit = 0
           then Inr (send_ok ''sparkconn-config'' c1)
           else Inr (send_error ''sparkconn-auth''
                  ''Error obtaining the ticket. Is the password correct?'' c1)))"

definition handle_comm_message :: "world \<Rightarrow> comm_data \<Rightarrow> connector \<Rightarrow> pyexc + connector" where
  "handle_comm_message w d c =
     (case action d of
        None \<Rightarrow> Inl (PyExc ''KeyError'' (sq @ ''action'' @ sq))
      | Some a \<Rightarrow>
          if a = ''sparkconn-action-auth'' then handle_auth w d c
          else if a = ''sparkconn-action-connect'' then handle_connect w d c
          else Inr c)"

text \<open>
  A run of the handler over the messages of a session, each with the outside world at
  the time it arrives. Every exception that leaves \<open>handle_comm_message\<close> is raised
  before the handler has changed anything, so the connector is then as it was.
\<close>

fun handle_all :: "(world \<times> comm_data) list \<Rightarrow> connector \<Rightarrow> connector" where
  "handle_all [] c = c"
| "handle_all ((w, d) # rest) c =
     (case handle_comm_message w d c of
        Inl e \<Rightarrow> handle_all rest c
      | Inr c' \<Rightarrow> handle_all rest c')"

text \<open>
  Session creation raises: \<open>configure\<close>, \<open>SparkContext(conf)\<close> or \<open>SparkSession(sc)\<close>
  raises, for the conf the handler starts from.
\<close>

definition session_creation_raises :: "world \<Rightarrow> comm_data \<Rightarrow> string \<Rightarrow> spark_conf \<Rightarrow> bool" where
  "session_creation_raises w d log4j conf0 =
     (case configure w log4j conf0 d of
        (conf, Inl e) \<Rightarrow> True
      | (conf, Inr u) \<Rightarrow>
          (case new_SparkContext w conf of
             Inl e \<Rightarrow> True
           | Inr sc \<Rightarrow> (case new_SparkSession w sc of Inl e \<Rightarrow> True | Inr spark \<Rightarrow> False)))"



text \<open>
  The outcome of a successful connect: \<open>configure\<close> and both constructors returned, the
  reply \<open>sparkconn-connected\<close> was sent and the three session variables were pushed.
\<close>

definition session_started :: "world \<Rightarrow> comm_data \<Rightarrow> connector \<Rightarrow> connector \<Rightarrow> bool" where
  "session_started w d c c' =
     (\<exists>conf0 conf sc spark.
        configure w (log4j_file c) conf0 d = (conf, Inr ()) \<and>
        new_SparkContext w conf = Inr sc \<and> new_SparkSession w sc = Inr spark \<and>
        sent c' = sent c @ [[(''msgtype'', PyStr ''sparkconn-connected'')]] \<and>
        push_calls c' = push_calls c @ [session_vars conf sc spark])"

subsection \<open>LogReader\<close>

text \<open>
  \<open>str.strip()\<close> drops the white space at both ends of a string. The characters are
  those for which \<open>str.isspace\<close> holds among the first 256 code points.
\<close>

definition isspace :: "char \<Rightarrow> bool" where
  "isspace ch =
     (ch \<in> set [CHR 0x09, CHR 0x0A, CHR 0x0B, CHR 0x0C, CHR 0x0D, CHR 0x1C, CHR 0x1D,
                CHR 0x1E, CHR 0x1F, CHR 0x20, CHR 0x85, CHR 0xA0])"

definition strip :: "string \<Rightarrow> string" where
  "strip s = rev (dropWhile isspace (rev (dropWhile isspace s)))"

text \<open>
  The thread of \<open>LogReader\<close> runs beside the message handler, which writes the flag
  \<open>connected\<close>, and beside the process that appends to the log file. What the thread
  sees of them is one observation for each turn of the loop of \<open>follow\<close>: the loop head
  reads the flag as true (\<open>Connected\<close>), or it reads it as false and \<open>readline\<close> returns
  the given string, which is empty at the end of the file.
\<close>

datatype poll = Connected | Readline string

text \<open>
  \<open>follow\<close>: the lines yielded, in order, and whether the generator is exhausted. After
  \<open>seek(0,2)\<close> only what is appended to the file is read. An empty string makes the loop
  sleep and poll again; with no observation left the loop is still running.
\<close>

fun follow :: "poll list \<Rightarrow> string list \<times> bool" where
  "follow [] = ([], False)"
| "follow (Connected # ps) = ([], True)"
| "follow (Readline line # ps) =
     (if line = [] then follow ps
      else (case follow ps of (ls, fin) \<Rightarrow> (line # ls, fin)))"

text \<open>
  \<open>run\<close>: every line yielded by \<open>follow\<close> is sent through the connector. The second
  component tells whether \<open>run\<close> has returned, which ends the thread.
\<close>

definition run :: "poll list \<Rightarrow> connector \<Rightarrow> connector \<times> bool" where
  "run ps c =
     (case follow ps of
        (ls, fin) \<Rightarrow>
          (foldl (\<lambda>c line. send [(''msgtype'', PyStr ''sparkconn-action-log''),
                                  (''msg'', PyStr (strip line))] c) c ls,
           fin))"

subsection \<open>An example world and connector\<close>

text \<open>
  A concrete outside world, for evaluating the handler: ports are decimal strings,
  \<open>kinit\<close> accepts the password \<open>secret\<close>, no ticket is held, port 5001 is taken, the
  Spark constructors succeed and formatting leaves a value as it is.
\<close>

definition example_world :: world where
  "example_world =
     \<lparr> environ = [''SPARK_PORT_1'' \<mapsto> ''5001'', ''SPARK_CLUSTER_NAME'' \<mapsto> ''nxcals''],
       kinit = (\<lambda>pw. if pw = ''secret'' then 0 else 1),
       klist = 1,
       py_int = (\<lambda>v. case v of
                   None \<Rightarrow> Inl (PyExc ''TypeError'' ''int() argument must be a string'')
                 | Some s \<Rightarrow> if s = ''5001'' then Inr 5001 else if s = ''5002'' then Inr 5002
                            else Inl (PyExc ''ValueError'' ''invalid literal for int()'')),
       socket_connect = (\<lambda>port. if port = 5001 then ConnOk else ConnSocketError),
       new_SparkConf = Inr Map.empty,
       new_SparkContext = (\<lambda>conf. Inr 1),
       new_SparkSession = (\<lambda>sc. Inr 2),
       format_value = (\<lambda>env v. Inr v) \<rparr>"

definition connect_msg :: comm_data where
  "connect_msg = \<lparr> action = Some ''sparkconn-action-connect'', password = None, options = None \<rparr>"

definition auth_msg :: "string \<Rightarrow> comm_data" where
  "auth_msg pw = \<lparr> action = Some ''sparkconn-action-auth'', password = Some pw, options = None \<rparr>"

definition free_world :: world where
  "free_world = example_world\<lparr>klist := 0, environ := [''SPARK_PORT_1'' \<mapsto> ''5002'']\<rparr>"

definition example_connector :: connector where
  "example_connector = init example_world ''/tmp/log4j.properties'' Map.empty"


section \<open>The contents manager mixin (swancontents/filemanager/projects\_mixin.py)\<close>

subsection \<open>Python's string and path functions\<close>

text \<open>\<open>s.strip('/')\<close>: the character is dropped from both ends.\<close>

definition strip_char :: "char \<Rightarrow> string \<Rightarrow> string" where
  "strip_char c s = rev (dropWhile (\<lambda>x. x = c) (rev (dropWhile (\<lambda>x. x = c) s)))"

text \<open>\<open>s.split('/')\<close>: never the empty list, \<open>''.split('/')\<close> is \<open>['']\<close>.\<close>

fun split_on :: "char \<Rightarrow> string \<Rightarrow> string list" where
  "split_on c [] = [[]]"
| "split_on c (x # xs) =
     (if x = c then [] # split_on c xs
      else (case split_on c xs of
              [] \<Rightarrow> [[x]]
            | w # ws \<Rightarrow> (x # w) # ws))"

text \<open>
  \<open>s.replace(old, new, 1)\<close>: the leftmost occurrence only; an empty \<open>old\<close> matches at
  the start.
\<close>

fun replace_first :: "string \<Rightarrow> string \<Rightarrow> string \<Rightarrow> string" where
  "replace_first old new [] = (if old = [] then new else [])"
| "replace_first old new (c # cs) =
     (if prefix old (c # cs) then new @ drop (length old) (c # cs)
      else c # replace_first old new cs)"

text \<open>
  \<open>s.replace(old, new)\<close>: every occurrence, left to right, without overlap; an empty
  \<open>old\<close> matches before every character and at the end.
\<close>

fun replace_nonempty :: "string \<Rightarrow> string \<Rightarrow> string \<Rightarrow> string" where
  "replace_nonempty old new [] = []"
| "replace_nonempty old new (c # cs) =
     (if prefix old (c # cs) then new @ replace_nonempty old new (drop (length old - 1) cs)
      else c # replace_nonempty old new cs)"

definition replace_all :: "string \<Rightarrow> string \<Rightarrow> string \<Rightarrow> string" where
  "replace_all old new s =
     (if old = [] then new @ concat (map (\<lambda>c. c # new) s)
      else replace_nonempty old new s)"

text \<open>\<open>os.path.join\<close> of \<open>posixpath\<close>, for two and for three components.\<close>

definition path_join :: "string \<Rightarrow> string \<Rightarrow> string" where
  "path_join a b =
     (if prefix ''/'' b then b
      else if a = [] \<or> suffix ''/'' a then a @ b
      else a @ ''/'' @ b)"

definition path_join3 :: "string \<Rightarrow> string \<Rightarrow> string \<Rightarrow> string" where
  "path_join3 a b c = path_join (path_join a b) c"

text \<open>\<open>os.path.basename(p)\<close>: what follows the last slash.\<close>

definition basename :: "string \<Rightarrow> string" where
  "basename p = rev (takeWhile (\<lambda>x. x \<noteq> CHR ''/'') (rev p))"

text \<open>
  \<open>os.path.splitext(p)[0]\<close>: the extension starts at the last dot of the last
  component, unless only dots stand before it in that component.
\<close>

definition splitext_root :: "string \<Rightarrow> string" where
  "splitext_root p =
     (let name = basename p;
          ext = rev (takeWhile (\<lambda>x. x \<noteq> CHR ''.'') (rev name));
          stem = take (length name - length ext - 1) name
      in if CHR ''.'' \<in> set name \<and> (\<exists>x \<in> set stem. x \<noteq> CHR ''.'')
         then take (length p - length ext - 1) p
         else p)"

text \<open>\<open>str(n)\<close> for a natural number.\<close>

fun str_nat :: "nat \<Rightarrow> string" where
  "str_nat n =
     (if n < 10 then [''0123456789'' ! n]
      else str_nat (n div 10) @ [''0123456789'' ! (n mod 10)])"

declare str_nat.simps [simp del]

subsection \<open>Models and the inherited storage manager\<close>

text \<open>
  The values a model dict holds: \<open>None\<close>, booleans, integers, strings, and anything else
  (a notebook's content, a listing) as an opaque token.
\<close>

datatype pyval = VNone | VBool bool | VInt int | VStr string | VOpaque nat

type_synonym model = "string \<rightharpoonup> pyval"

fun val_truthy :: "pyval \<Rightarrow> bool" where
  "val_truthy VNone = False"
| "val_truthy (VBool b) = b"
| "val_truthy (VInt i) = (i \<noteq> 0)"
| "val_truthy (VStr s) = (s \<noteq> [])"
| "val_truthy (VOpaque t) = True"

text \<open>
  A method that reads or changes the storage takes the storage and returns the storage
  it leaves behind, with its result or the exception it raised.
\<close>

type_synonym ('s, 'a) act = "'s \<Rightarrow> 's \<times> (exn + 'a)"

text \<open>
  The mixin is mixed into a storage manager that is not part of these sources. What it
  inherits from it is a parameter: the configuration traits, \<open>_get_os_path\<close>,
  \<open>exists\<close>, \<open>_is_dir\<close>, \<open>_is_file\<close>, \<open>_mkdir\<close>, \<open>_move\<close>, the inherited
  \<open>_dir_model\<close>, \<open>get\<close>, \<open>save\<close> (on the arguments it is called with) and
  \<open>update\<close>, \<open>_save_directory\<close>, \<open>_save_file\<close>, \<open>_save_notebook\<close> (returning the
  validation error it captured), \<open>nbformat.from_dict\<close>, \<open>check_and_sign\<close>,
  \<open>validate_notebook_model\<close>, the two save hooks (each may change the model it is
  given) and what \<open>perm_to_403\<close> turns an exception into.
\<close>

text \<open>
  A positional argument of the call \<open>super().save(self, model, path)\<close> that \<open>save\<close>
  makes for a chunked model: the bound method receives the manager itself a second
  time, then the model, then the path. The inherited \<open>save\<close> is given the arguments as a
  list, as the call passes them.
\<close>

datatype save_arg = ArgSelf | ArgModel model | ArgPath string

record 's manager =
  root_dir :: string
  swan_default_folder :: string
  swan_default_file :: string
  get_os_path :: "string \<Rightarrow> string"
  exists :: "string \<Rightarrow> 's \<Rightarrow> bool"
  is_dir :: "string \<Rightarrow> 's \<Rightarrow> bool"
  is_file :: "string \<Rightarrow> 's \<Rightarrow> bool"
  mkdir :: "string \<Rightarrow> ('s, unit) act"
  move :: "string \<Rightarrow> string \<Rightarrow> bool \<Rightarrow> ('s, unit) act"
  super_dir_model :: "string \<Rightarrow> bool \<Rightarrow> ('s, model) act"
  super_get :: "string \<Rightarrow> bool \<Rightarrow> pyval \<Rightarrow> pyval \<Rightarrow> ('s, model) act"
  super_save :: "save_arg list \<Rightarrow> ('s, model) act"
  super_update :: "model \<Rightarrow> string \<Rightarrow> ('s, model) act"
  save_directory :: "string \<Rightarrow> model \<Rightarrow> string \<Rightarrow> ('s, unit) act"
  save_file :: "string \<Rightarrow> pyval \<Rightarrow> pyval \<Rightarrow> ('s, unit) act"
  save_notebook :: "string \<Rightarrow> pyval \<Rightarrow> ('s, pyval) act"
  nbformat_from_dict :: "pyval \<Rightarrow> exn + pyval"
  check_and_sign :: "pyval \<Rightarrow> string \<Rightarrow> ('s, unit) act"
  validate_notebook_model :: "model \<Rightarrow> pyval \<Rightarrow> ('s, model) act"
  run_pre_save_hook :: "model \<Rightarrow> string \<Rightarrow> ('s, model) act"
  run_post_save_hook :: "model \<Rightarrow> string \<Rightarrow> ('s, model) act"
  perm_to_403 :: "exn \<Rightarrow> exn"

subsection \<open>Path classification\<close>

definition is_swan_root_folder :: "'s manager \<Rightarrow> string \<Rightarrow> bool" where
  "is_swan_root_folder M path =
     (let folders = split_on CHR ''/'' (replace_first (root_dir M @ ''/'') [] path)
      in length folders = 2 \<and> folders ! 0 = swan_default_folder M)"

definition contains_swan_folder_name :: "'s manager \<Rightarrow> string \<Rightarrow> bool" where
  "contains_swan_folder_name M path =
     (let folders = split_on CHR ''/''
            (replace_first (root_dir M @ ''/'' @ swan_default_folder M @ ''/'') [] path)
      in swan_default_folder M \<in> set folders)"

subsection \<open>Project models and project creation\<close>

text \<open>
  \<open>_get_project_path\<close>: \<open>Inl ()\<close> is the exception \<open>InvalidProject\<close>, \<open>Inr None\<close> the
  result \<open>None\<close>. The loop walks down the folders below the projects folder and stops at
  the first one that holds the sentinel file.
\<close>

fun find_project :: "'s manager \<Rightarrow> 's \<Rightarrow> string \<Rightarrow> string list \<Rightarrow> string option" where
  "find_project M s path_to_project [] = None"
| "find_project M s path_to_project (folder # rest) =
     (let p = path_to_project @ ''/'' @ folder in
      if is_file M (get_os_path M (path_join p (swan_default_file M))) s then Some p
      else find_project M s p rest)"

definition get_project_path :: "'s manager \<Rightarrow> string \<Rightarrow> 's \<Rightarrow> unit + string option" where
  "get_project_path M path s =
     (case split_on CHR ''/'' (replace_first (root_dir M @ ''/'') [] path) of
        [] \<Rightarrow> Inl ()
      | first # rest \<Rightarrow>
          if first \<noteq> swan_default_folder M then Inl ()
          else Inr (find_project M s first rest))"

text \<open>The mixin's own \<open>_dir_model\<close>, for a directory that is not a project.\<close>

definition dir_model :: "'s manager \<Rightarrow> string \<Rightarrow> bool \<Rightarrow> ('s, model) act" where
  "dir_model M path content s =
     (case super_dir_model M path content s of
        (s1, Inl e) \<Rightarrow> (s1, Inl e)
      | (s1, Inr m) \<Rightarrow>
          (let m1 = m(''is_project'' \<mapsto> VBool False) in
           case get_project_path M path s1 of
             Inl invalid \<Rightarrow> (s1, Inr m1)
           | Inr None \<Rightarrow> (s1, Inr m1)
           | Inr (Some parent_project) \<Rightarrow>
               if parent_project \<noteq> [] then (s1, Inr (m1(''project'' \<mapsto> VStr parent_project)))
               else (s1, Inr m1)))"

definition proj_model :: "'s manager \<Rightarrow> string \<Rightarrow> bool \<Rightarrow> ('s, model) act" where
  "proj_model M path content s =
     (case super_dir_model M path content s of
        (s1, Inl e) \<Rightarrow> (s1, Inl e)
      | (s1, Inr m) \<Rightarrow> (s1, Inr (m(''is_project'' \<mapsto> VBool True))))"

definition save_project :: "'s manager \<Rightarrow> string \<Rightarrow> model \<Rightarrow> string \<Rightarrow> ('s, unit) act" where
  "save_project M os_path m path s =
     (let create_file = \<not> exists M os_path s in
      case save_directory M os_path m path s of
        (s1, Inl e) \<Rightarrow> (s1, Inl e)
      | (s1, Inr u) \<Rightarrow>
          if create_file then
            (case save_file M (path_join os_path (swan_default_file M)) (VStr []) (VStr ''text'') s1 of
               (s2, Inl e) \<Rightarrow> (s2, Inl (perm_to_403 M e))
             | (s2, Inr u) \<Rightarrow> (s2, Inr ()))
          else (s1, Inr ()))"

subsection \<open>get\<close>

definition get :: "'s manager \<Rightarrow> string \<Rightarrow> bool \<Rightarrow> pyval \<Rightarrow> pyval \<Rightarrow> ('s, model) act" where
  "get M path0 content type format s =
     (let path = strip_char CHR ''/'' path0 in
      if path \<noteq> swan_default_folder M \<and> \<not> exists M path s
      then (s, Inl (HTTPError 404))
      else
        (let os_path = get_os_path M path in
         case (if path = swan_default_folder M \<and> \<not> is_dir M os_path s
               then mkdir M os_path s else (s, Inr ())) of
           (s1, Inl e) \<Rightarrow> (s1, Inl e)
         | (s1, Inr u) \<Rightarrow>
             (let os_path_proj = get_os_path M (path_join path (swan_default_file M)) in
              if is_dir M os_path s1 \<and> is_file M os_path_proj s1
              then
                (if type \<notin> {VNone, VStr ''project'', VStr ''directory''}
                 then (s1, Inl (HTTPError 400))
                 else proj_model M path content s1)
              else super_get M path content type format s1)))"

subsection \<open>save\<close>

text \<open>
  The body of the \<open>try\<close>: the dispatch on the model's type. It returns the validation
  error that \<open>_save_notebook\<close> captured (\<open>None\<close> here for the empty dict of the other
  types).
\<close>

definition save_try :: "'s manager \<Rightarrow> string \<Rightarrow> model \<Rightarrow> string \<Rightarrow> ('s, pyval) act" where
  "save_try M os_path m path s =
     (if m ''type'' = Some (VStr ''project'') then
        (if \<not> is_swan_root_folder M os_path then (s, Inl (HTTPError 400))
         else (case save_project M os_path m path s of
                 (s1, Inl e) \<Rightarrow> (s1, Inl e)
               | (s1, Inr u) \<Rightarrow> (s1, Inr VNone)))
      else if m ''type'' = Some (VStr ''notebook'') then
        (case m ''content'' of
           None \<Rightarrow> (s, Inl (Raised (PyExc ''KeyError'' (sq @ ''content'' @ sq))))
         | Some c \<Rightarrow>
             (case nbformat_from_dict M c of
                Inl e \<Rightarrow> (s, Inl e)
              | Inr nb \<Rightarrow>
                  (case check_and_sign M nb path s of
                     (s1, Inl e) \<Rightarrow> (s1, Inl e)
                   | (s1, Inr u) \<Rightarrow> save_notebook M os_path nb s1)))
      else if m ''type'' = Some (VStr ''file'') then
        (case m ''content'' of
           None \<Rightarrow> (s, Inl (Raised (PyExc ''KeyError'' (sq @ ''content'' @ sq))))
         | Some c \<Rightarrow>
             (case save_file M os_path c (case m ''format'' of None \<Rightarrow> VNone | Some f \<Rightarrow> f) s of
                (s1, Inl e) \<Rightarrow> (s1, Inl e)
              | (s1, Inr u) \<Rightarrow> (s1, Inr VNone)))
      else if m ''type'' = Some (VStr ''directory'') then
        (case save_directory M os_path m path s of
           (s1, Inl e) \<Rightarrow> (s1, Inl e)
         | (s1, Inr u) \<Rightarrow> (s1, Inr VNone))
      else (s, Inl (HTTPError 400)))"

text \<open>The \<open>except\<close> clauses: an \<open>HTTPError\<close> is raised again, anything else becomes a 500.\<close>

fun save_except :: "exn \<Rightarrow> exn" where
  "save_except (HTTPError code) = HTTPError code"
| "save_except (Raised e) = HTTPError 500"

text \<open>
  What follows the \<open>try\<close>: the notebook is validated, the model is read back with
  \<open>get(path, content=False)\<close>, a truthy validation message is put into it, and the
  post-save hook runs on it.
\<close>

definition save_finish ::
  "'s manager \<Rightarrow> string \<Rightarrow> model \<Rightarrow> string \<Rightarrow> pyval \<Rightarrow> ('s, model) act" where
  "save_finish M os_path m path validation_error s =
     (case (if m ''type'' = Some (VStr ''notebook'')
            then (case validate_notebook_model M m validation_error s of
                    (s1, Inl e) \<Rightarrow> (s1, Inl e)
                  | (s1, Inr m1) \<Rightarrow>
                      (s1, Inr (case m1 ''message'' of None \<Rightarrow> VNone | Some v \<Rightarrow> v)))
            else (s, Inr VNone)) of
        (s1, Inl e) \<Rightarrow> (s1, Inl e)
      | (s1, Inr validation_message) \<Rightarrow>
          (case get M path False VNone VNone s1 of
             (s2, Inl e) \<Rightarrow> (s2, Inl e)
           | (s2, Inr m2) \<Rightarrow>
               run_post_save_hook M
                 (if val_truthy validation_message then m2(''message'' \<mapsto> validation_message)
                  else m2)
                 os_path s2))"

definition save :: "'s manager \<Rightarrow> model \<Rightarrow> string \<Rightarrow> ('s, model) act" where
  "save M model0 path0 s =
     (if model0 ''chunk'' \<noteq> None \<and> model0 ''chunk'' \<noteq> Some VNone
      then super_save M [ArgSelf, ArgModel model0, ArgPath path0] s
      else
        (let path = strip_char CHR ''/'' path0 in
         case run_pre_save_hook M model0 path s of
           (s1, Inl e) \<Rightarrow> (s1, Inl e)
         | (s1, Inr m) \<Rightarrow>
             if m ''type'' = None then (s1, Inl (HTTPError 400))
             else if m ''content'' = None \<and> m ''type'' \<noteq> Some (VStr ''directory'')
                     \<and> m ''type'' \<noteq> Some (VStr ''project'')
             then (s1, Inl (HTTPError 400))
             else
               (let os_path = get_os_path M path in
                if contains_swan_folder_name M os_path then (s1, Inl (HTTPError 400))
                else
                  (case save_try M os_path m path s1 of
                     (s2, Inl e) \<Rightarrow> (s2, Inl (save_except e))
                   | (s2, Inr validation_error) \<Rightarrow>
                       save_finish M os_path m path validation_error s2))))"

subsection \<open>update\<close>

definition update :: "'s manager \<Rightarrow> model \<Rightarrow> string \<Rightarrow> ('s, model) act" where
  "update M m path s =
     (if contains_swan_folder_name M (get_os_path M path) then (s, Inl (HTTPError 400))
      else super_update M m path s)"

subsection \<open>move\_folder\<close>

text \<open>
  The loop of \<open>move_folder\<close> that looks for a free name: it counts up while
  \<open>dest + str(count)\<close> is a directory, and need not end.
\<close>

partial_function (option) free_count :: "(string \<Rightarrow> bool) \<Rightarrow> string \<Rightarrow> nat \<Rightarrow> nat option" where
  "free_count isdir dest count =
     (if isdir (dest @ str_nat count) then free_count isdir dest (count + 1) else Some count)"

text \<open>\<open>None\<close> when the loop does not end; otherwise the storage left and the result.\<close>

definition move_folder ::
  "'s manager \<Rightarrow> string \<Rightarrow> string \<Rightarrow> bool \<Rightarrow> 's \<Rightarrow> ('s \<times> (exn + string)) option" where
  "move_folder M origin dest0 preserve s =
     (case (if is_dir M dest0 s
            then (case free_count (\<lambda>p. is_dir M p s) dest0 1 of
                    None \<Rightarrow> None
                  | Some count \<Rightarrow> Some (dest0 @ str_nat count))
            else Some dest0) of
        None \<Rightarrow> None
      | Some dest \<Rightarrow>
          Some (case move M origin dest preserve s of
                  (s1, Inl e) \<Rightarrow> (s1, Inl e)
                | (s1, Inr u) \<Rightarrow>
                    (case save_file M (path_join dest (swan_default_file M))
                            (VStr []) (VStr ''text'') s1 of
                       (s2, Inl e) \<Rightarrow> (s2, Inl e)
                     | (s2, Inr u) \<Rightarrow> (s2, Inr dest))))"

subsection \<open>download\<close>

text \<open>An HTTP response: its headers and its body.\<close>

datatype response = Response "(string \<times> string) list" string

text \<open>
  What \<open>download\<close> uses besides the storage manager: \<open>tempfile.mkdtemp\<close>, the return
  code of \<open>git clone\<close> into a directory, \<open>shutil.copy2\<close>, \<open>os.path.isdir\<close> and
  \<open>os.path.isfile\<close>, \<open>requests.get\<close>, the writing of a response body to a file, and
  the functions of the module \<open>proj_url_checker\<close>, which these sources import and do not
  contain.
\<close>

record 's host =
  mkdtemp :: "('s, string) act"
  git_clone :: "string \<Rightarrow> string \<Rightarrow> ('s, int) act"
  copy2 :: "string \<Rightarrow> string \<Rightarrow> ('s, unit) act"
  os_isdir :: "string \<Rightarrow> 's \<Rightarrow> bool"
  os_isfile :: "string \<Rightarrow> 's \<Rightarrow> bool"
  requests_get :: "string \<Rightarrow> ('s, response) act"
  write_content :: "string \<Rightarrow> response \<Rightarrow> ('s, unit) act"
  is_file_on_eos :: "string \<Rightarrow> bool"
  get_eos_username :: "string \<Rightarrow> string option"
  get_path_without_eos_base :: "string \<Rightarrow> string"
  is_cernbox_shared_link :: "string \<Rightarrow> bool"
  get_name_from_shared_from_link :: "response \<Rightarrow> string"

text \<open>
  The last statement of \<open>download\<close>: the root directory is replaced by nothing wherever
  it occurs in the path, and the slashes at both ends are stripped.
\<close>

definition download_model :: "'s manager \<Rightarrow> string \<Rightarrow> string \<Rightarrow> model" where
  "download_model M type path =
     [''type'' \<mapsto> VStr type,
      ''path'' \<mapsto> VStr (strip_char CHR ''/'' (replace_all (root_dir M) [] path))]"

text \<open>
  The statements that three branches of \<open>download\<close> share: the temporary directory,
  which holds the file, is moved to the folder named after the file without its
  extension, and the model is the file in that folder.
\<close>

definition download_file ::
  "'s manager \<Rightarrow> string \<Rightarrow> string \<Rightarrow> 's \<Rightarrow> ('s \<times> (exn + model)) option" where
  "download_file M tmp_dir_name file_name s =
     (case move_folder M tmp_dir_name
             (path_join3 (root_dir M) (swan_default_folder M) (splitext_root file_name))
             False s of
        None \<Rightarrow> None
      | Some (s1, Inl e) \<Rightarrow> Some (s1, Inl e)
      | Some (s1, Inr dest) \<Rightarrow>
          Some (s1, Inr (download_model M ''file'' (path_join dest file_name))))"

definition download :: "'s host \<Rightarrow> 's manager \<Rightarrow> string \<Rightarrow> 's \<Rightarrow> ('s \<times> (exn + model)) option" where
  "download H M url s =
     (case mkdtemp H s of
        (s0, Inl e) \<Rightarrow> Some (s0, Inl e)
      | (s0, Inr tmp_dir_name) \<Rightarrow>
          if suffix ''.git'' url then
            (case git_clone H url tmp_dir_name s0 of
               (s1, Inl e) \<Rightarrow> Some (s1, Inl e)
             | (s1, Inr rc) \<Rightarrow>
                 if rc \<noteq> 0 then Some (s1, Inl (HTTPError 400))
                 else
                   (case move_folder M tmp_dir_name
                           (path_join3 (root_dir M) (swan_default_folder M)
                              (splitext_root (basename url)))
                           False s1 of
                      None \<Rightarrow> None
                    | Some (s2, Inl e) \<Rightarrow> Some (s2, Inl e)
                    | Some (s2, Inr dest) \<Rightarrow>
                        Some (s2, Inr (download_model M ''directory'' dest))))
          else if is_file_on_eos H url then
            (let file_path = drop 6 url in
             if get_eos_username H file_path = get_eos_username H (root_dir M)
             then Some (s0, Inr (download_model M ''file'' (get_path_without_eos_base H file_path)))
             else
               (case copy2 H file_path tmp_dir_name s0 of
                  (s1, Inl e) \<Rightarrow> Some (s1, Inl e)
                | (s1, Inr u) \<Rightarrow>
                    download_file M tmp_dir_name (last (split_on CHR ''/'' file_path)) s1))
          else if prefix ''local:'' url then
            (let path = drop 6 url; file_name = last (split_on CHR ''/'' path) in
             if os_isdir H path s0 then
               (case move_folder M path
                       (path_join3 (root_dir M) (swan_default_folder M) file_name) True s0 of
                  None \<Rightarrow> None
                | Some (s1, Inl e) \<Rightarrow> Some (s1, Inl e)
                | Some (s1, Inr dest) \<Rightarrow>
                    Some (s1, Inr (download_model M ''directory'' dest)))
             else if os_isfile H path s0 then
               (case copy2 H path tmp_dir_name s0 of
                  (s1, Inl e) \<Rightarrow> Some (s1, Inl e)
                | (s1, Inr u) \<Rightarrow> download_file M tmp_dir_name file_name s1)
             else Some (s0, Inl (HTTPError 404)))
          else
            (case requests_get H url s0 of
               (s1, Inl e) \<Rightarrow> Some (s1, Inl e)
             | (s1, Inr r) \<Rightarrow>
                 (let file_name = (if is_cernbox_shared_link H url
                                   then get_name_from_shared_from_link H r
                                   else basename url) in
                  if suffix ''.zip'' file_name
                  then Some (s1, Inl (Raised (PyExc ''NameError''
                         (''name '' @ sq @ ''zipfile'' @ sq @ '' is not defined''))))
                  else
                    (case write_content H (path_join tmp_dir_name file_name) r s1 of
                       (s2, Inl e) \<Rightarrow> Some (s2, Inl e)
                     | (s2, Inr u) \<Rightarrow> download_file M tmp_dir_name file_name s2))))"

subsection \<open>Names for the steps of get and save\<close>

text \<open>
  The statement of \<open>get\<close> that creates the projects folder when the path is that
  folder and it is not a directory, and does nothing for every other path.
\<close>

definition ensure_root :: "'s manager \<Rightarrow> string \<Rightarrow> ('s, unit) act" where
  "ensure_root M p s =
     (if p = swan_default_folder M \<and> \<not> is_dir M (get_os_path M p) s
      then mkdir M (get_os_path M p) s else (s, Inr ()))"

text \<open>The test of \<open>get\<close> for a project: a directory that holds the sentinel file.\<close>

definition is_project_dir :: "'s manager \<Rightarrow> string \<Rightarrow> 's \<Rightarrow> bool" where
  "is_project_dir M p s =
     (is_dir M (get_os_path M p) s \<and>
      is_file M (get_os_path M (path_join p (swan_default_file M))) s)"

text \<open>\<open>model.get('chunk', None) is None\<close>: the model is not a chunk of a large file.\<close>

definition no_chunk :: "model \<Rightarrow> bool" where
  "no_chunk m = (m ''chunk'' = None \<or> m ''chunk'' = Some VNone)"

text \<open>The inverse of \<open>split\<close>: \<open>'/'.join(words)\<close>.\<close>

fun join_on :: "char \<Rightarrow> string list \<Rightarrow> string" where
  "join_on c [] = []"
| "join_on c [w] = w"
| "join_on c (w # v # ws) = w @ c # join_on c (v # ws)"

subsection \<open>An example storage manager\<close>

text \<open>
  A small storage manager to evaluate the mixin on: the storage is a list of paths with
  what is there, the newest entry first. Its \<open>exists\<close> takes a path relative to the
  root, as \<open>get\<close> calls it; the hooks do nothing and the notebook functions accept
  everything.
\<close>

datatype node = FileNode | DirNode

definition example_os_path :: "string \<Rightarrow> string" where
  "example_os_path p = (if p = [] then ''/home/u'' else ''/home/u/'' @ p)"

definition example_super_get ::
  "string \<Rightarrow> bool \<Rightarrow> pyval \<Rightarrow> pyval \<Rightarrow> ((string \<times> node) list, model) act" where
  "example_super_get p content type format s =
     (case map_of s (example_os_path p) of
        None \<Rightarrow> (s, Inl (HTTPError 404))
      | Some DirNode \<Rightarrow>
          if type = VNone \<or> type = VStr ''directory''
          then (s, Inr [''path'' \<mapsto> VStr p, ''type'' \<mapsto> VStr ''directory'',
                        ''is_project'' \<mapsto> VBool False])
          else (s, Inl (HTTPError 400))
      | Some FileNode \<Rightarrow>
          if type = VStr ''directory'' then (s, Inl (HTTPError 400))
          else (s, Inr [''path'' \<mapsto> VStr p, ''type'' \<mapsto> VStr ''file'']))"

definition example_manager :: "(string \<times> node) list manager" where
  "example_manager =
     \<lparr> root_dir = ''/home/u'',
       swan_default_folder = ''SWAN_projects'',
       swan_default_file = ''.swanproject'',
       get_os_path = example_os_path,
       exists = (\<lambda>p s. map_of s (example_os_path (strip_char CHR ''/'' p)) \<noteq> None),
       is_dir = (\<lambda>os s. map_of s os = Some DirNode),
       is_file = (\<lambda>os s. map_of s os = Some FileNode),
       mkdir = (\<lambda>os s. if map_of s os = None then ((os, DirNode) # s, Inr ())
                         else (s, Inl (Raised (PyExc ''FileExistsError'' os)))),
       move = (\<lambda>origin dest preserve s. ((dest, DirNode) # s, Inr ())),
       super_dir_model = (\<lambda>p content s.
          (s, Inr [''path'' \<mapsto> VStr p, ''type'' \<mapsto> VStr ''directory''])),
       super_get = example_super_get,
       super_save = (\<lambda>args s.
          case args of
            [ArgModel m, ArgPath p] \<Rightarrow> ((example_os_path p, FileNode) # s, Inr m)
          | _ \<Rightarrow> (s, Inl (Raised (PyExc ''TypeError''
                   ''save() takes from 2 to 3 positional arguments but 4 were given'')))),
       super_update = (\<lambda>m p s. (s, Inr m)),
       save_directory = (\<lambda>os m p s.
          if map_of s os = None then ((os, DirNode) # s, Inr ())
          else if map_of s os = Some DirNode then (s, Inr ())
          else (s, Inl (HTTPError 400))),
       save_file = (\<lambda>os c f s. ((os, FileNode) # s, Inr ())),
       save_notebook = (\<lambda>os nb s. ((os, FileNode) # s, Inr VNone)),
       nbformat_from_dict = (\<lambda>c. Inr c),
       check_and_sign = (\<lambda>nb p s. (s, Inr ())),
       validate_notebook_model = (\<lambda>m ve s. (s, Inr m)),
       run_pre_save_hook = (\<lambda>m p s. (s, Inr m)),
       run_post_save_hook = (\<lambda>m os s. (s, Inr m)),
       perm_to_403 = (\<lambda>e. e) \<rparr>"

definition example_fs :: "(string \<times> node) list" where
  "example_fs =
     [(''/home/u'', DirNode),
      (''/home/u/SWAN_projects'', DirNode),
      (''/home/u/SWAN_projects/demo'', DirNode),
      (''/home/u/SWAN_projects/demo/.swanproject'', FileNode),
      (''/home/u/SWAN_projects/demo/a.ipynb'', FileNode),
      (''/home/u/SWAN_projects/plain'', DirNode),
      (''/home/u/notes'', DirNode)]"

definition file_model :: model where
  "file_model = [''type'' \<mapsto> VStr ''file'', ''format'' \<mapsto> VStr ''text'', ''content'' \<mapsto> VStr ''x = 1'']"

definition project_model :: model where
  "project_model = [''type'' \<mapsto> VStr ''project'']"




subsection \<open>An example host\<close>

text \<open>
  A host for the example manager: cloning over https succeeds, every request is answered,
  files on EOS are addressed as \<open>file://eos/...\<close>.
\<close>

definition example_host :: "(string \<times> node) list host" where
  "example_host =
     \<lparr> mkdtemp = (\<lambda>s. ((''/tmp/tmpq'', DirNode) # s, Inr ''/tmp/tmpq'')),
       git_clone = (\<lambda>url dir s.
          if prefix ''https://'' url then ((dir @ ''/README.md'', FileNode) # s, Inr 0)
          else (s, Inr 128)),
       copy2 = (\<lambda>src dst s. ((path_join dst (basename src), FileNode) # s, Inr ())),
       os_isdir = (\<lambda>p s. map_of s p = Some DirNode),
       os_isfile = (\<lambda>p s. map_of s p = Some FileNode),
       requests_get = (\<lambda>url s. (s, Inr (Response [] ''{}''))),
       write_content = (\<lambda>p r s. ((p, FileNode) # s, Inr ())),
       is_file_on_eos = (\<lambda>url. prefix ''file://eos/'' url),
       get_eos_username = (\<lambda>p.
          if prefix ''/eos/user/'' p \<and> 5 \<le> length (split_on CHR ''/'' p)
          then Some (split_on CHR ''/'' p ! 4) else None),
       get_path_without_eos_base = (\<lambda>p. join_on CHR ''/'' (drop 5 (split_on CHR ''/'' p))),
       is_cernbox_shared_link = (\<lambda>url. prefix ''https://cernbox.cern.ch/'' url),
       get_name_from_shared_from_link = (\<lambda>r. case r of
          Response headers body \<Rightarrow>
            (case map_of headers ''Content-Disposition'' of None \<Rightarrow> [] | Some n \<Rightarrow> n)) \<rparr>"

text \<open>The example storage after \<open>mkdtemp\<close>, after a clone, and after the move to a project.\<close>

definition example_tmp_fs :: "(string \<times> node) list" where
  "example_tmp_fs = (''/tmp/tmpq'', DirNode) # example_fs"

definition example_clone_fs :: "(string \<times> node) list" where
  "example_clone_fs = (''/tmp/tmpq/README.md'', FileNode) # example_tmp_fs"

definition example_project_fs :: "string \<Rightarrow> (string \<times> node) list" where
  "example_project_fs dest =
     (dest @ ''/.swanproject'', FileNode) # (dest, DirNode) # example_clone_fs"

section \<open>Properties of the kernel extension\<close>

lemmas send_defs = send_ok_def send_error_def send_def

lemma connect_session_ok:
  assumes "\<not> session_creation_raises w d (log4j_file c) conf0"
  shows "\<exists>conf sc spark.
       configure w (log4j_file c) conf0 d = (conf, Inr ()) \<and>
       new_SparkContext w conf = Inr sc \<and> new_SparkSession w sc = Inr spark \<and>
       connected (connect_session w d existing conf0 c) \<and>
       sent (connect_session w d existing conf0 c) =
         sent c @ [[(''msgtype'', PyStr ''sparkconn-connected'')]] \<and>
       push_calls (connect_session w d existing conf0 c) =
         push_calls c @ [session_vars conf sc spark]"
  using assms
  by (auto simp: connect_session_def session_creation_raises_def send_defs push_def
      store_conf_def Let_def split: prod.splits sum.splits)

lemma connect_session_raises:
  assumes "session_creation_raises w d (log4j_file c) conf0"
  shows "\<exists>err.
       connected (connect_session w d existing conf0 c) = connected c \<and>
       sent (connect_session w d existing conf0 c) =
         sent c @ [[(''msgtype'', PyStr ''sparkconn-config''), (''error'', PyStr err)]] \<and>
       push_calls (connect_session w d existing conf0 c) = push_calls c \<and>
       kinit_calls (connect_session w d existing conf0 c) = kinit_calls c \<and>
       (\<forall>k. k \<noteq> ''swan_spark_conf'' \<longrightarrow>
          user_ns (connect_session w d existing conf0 c) k = user_ns c k) \<and>
       user_ns (connect_session w d existing conf0 c) ''swan_spark_conf'' =
         (if existing then Some (SparkConfObj (fst (configure w (log4j_file c) conf0 d)))
          else user_ns c ''swan_spark_conf'')"
  using assms
  by (auto simp: connect_session_def session_creation_raises_def send_defs push_def
      store_conf_def Let_def split: prod.splits sum.splits)




lemmas example_defs = example_world_def example_connector_def init_def connect_msg_def auth_msg_def



text \<open>
  Claim C5. For an auth message that carries a password, the handler pipes the password
  to \<open>kinit\<close> once and sends one reply: \<open>sparkconn-config\<close> when \<open>kinit\<close> exits
  with 0, otherwise \<open>sparkconn-auth\<close> with the bad-password error. The connected flag,
  the user namespace and the pushes are as before.
\<close>

theorem auth_single_reply:
  assumes "action d = Some ''sparkconn-action-auth''" and "password d = Some pw"
  shows "\<exists>c'. handle_comm_message w d c = Inr c' \<and>
           kinit_calls c' = kinit_calls c @ [pw] \<and>
           sent c' = sent c @
             [if kinit w pw = 0 then [(''msgtype'', PyStr ''sparkconn-config'')]
              else [(''msgtype'', PyStr ''sparkconn-auth''),
                    (''error'', PyStr ''Error obtaining the ticket. Is the password correct?'')]] \<and>
           connected c' = connected c \<and> user_ns c' = user_ns c \<and>
           push_calls c' = push_calls c"
  using assms
  by (simp add: handle_comm_message_def handle_auth_def send_defs Let_def)

text \<open>The theorem at the example, for the right password and for a wrong one.\<close>

theorem auth_single_reply_witness:
  "(\<exists>c'. handle_comm_message example_world (auth_msg ''secret'') example_connector = Inr c' \<and>
      kinit_calls c' = [''secret''] \<and>
      sent c' = [[(''msgtype'', PyStr ''sparkconn-config'')]] \<and> \<not> connected c') \<and>
   (\<exists>c'. handle_comm_message example_world (auth_msg ''guess'') example_connector = Inr c' \<and>
      kinit_calls c' = [''guess''] \<and>
      sent c' = [[(''msgtype'', PyStr ''sparkconn-auth''),
                  (''error'', PyStr ''Error obtaining the ticket. Is the password correct?'')]] \<and>
      \<not> connected c')"
  using auth_single_reply [of "auth_msg ''secret''" "''secret''" example_world example_connector]
    auth_single_reply [of "auth_msg ''guess''" "''guess''" example_world example_connector]
  by (auto simp: example_defs)

lemma connect_fresh_connected:
  assumes "connected (connect_fresh w d c)" and "\<not> connected c"
  shows "\<exists>conf0 conf sc spark. new_SparkConf w = Inr conf0 \<and>
           configure w (log4j_file c) conf0 d = (conf, Inr ()) \<and>
           new_SparkContext w conf = Inr sc \<and> new_SparkSession w sc = Inr spark \<and>
           sent (connect_fresh w d c) = sent c @ [[(''msgtype'', PyStr ''sparkconn-connected'')]] \<and>
           push_calls (connect_fresh w d c) = push_calls c @ [session_vars conf sc spark]"
proof (cases "new_SparkConf w")
  case (Inl e)
  with assms show ?thesis by (simp add: connect_fresh_def send_defs)
next
  case (Inr conf0)
  show ?thesis
  proof (cases "session_creation_raises w d (log4j_file c) conf0")
    case True
    from connect_session_raises [OF True, of False] assms Inr show ?thesis
      by (auto simp: connect_fresh_def)
  next
    case False
    from connect_session_ok [OF False, of False] Inr show ?thesis
      by (auto simp: connect_fresh_def)
  qed
qed

lemma handle_flip:
  assumes h: "handle_comm_message w d c = Inr c'" and nc: "\<not> connected c" and c': "connected c'"
  shows "action d = Some ''sparkconn-action-connect'' \<and> \<not> (needs_auth c \<and> klist w \<noteq> 0) \<and>
         is_port_in_use w = Inr False \<and> session_started w d c c'"
proof -
  have act: "action d = Some ''sparkconn-action-connect''"
    using h nc c'
    by (auto simp: handle_comm_message_def handle_auth_def send_defs Let_def
        split: option.splits if_splits)
  then have hc: "handle_connect w d c = Inr c'"
    using h by (simp add: handle_comm_message_def)
  have auth: "\<not> (needs_auth c \<and> klist w \<noteq> 0)"
    using hc nc c' by (auto simp: handle_connect_def send_defs split: if_splits)
  have port: "is_port_in_use w = Inr False"
    using hc nc c' auth
    by (auto simp: handle_connect_def send_defs split: sum.splits bool.splits)
  have "session_started w d c c'"
  proof (cases "user_ns c ''swan_spark_conf''")
    case None
    with hc nc auth port have eq: "c' = connect_fresh w d c"
      by (auto simp: handle_connect_def)
    from connect_fresh_connected [of w d c] c' nc show ?thesis
      unfolding eq session_started_def by blast
  next
    case (Some v)
    show ?thesis
    proof (cases "truthy v")
      case False
      with Some hc nc auth port have eq: "c' = connect_fresh w d c"
        by (auto simp: handle_connect_def)
      from connect_fresh_connected [of w d c] c' nc show ?thesis
        unfolding eq session_started_def by blast
    next
      case True
      with Some hc nc auth port c' obtain conf0 where v: "v = SparkConfObj conf0"
        by (cases v) (auto simp: handle_connect_def send_defs split: if_splits)
      with Some True hc nc auth port have eq: "c' = connect_session w d True conf0 c"
        by (auto simp: handle_connect_def)
      show ?thesis
      proof (cases "session_creation_raises w d (log4j_file c) conf0")
        case True
        from connect_session_raises [OF True, of True] c' nc show ?thesis
          unfolding eq by auto
      next
        case False
        from connect_session_ok [OF False, of True] show ?thesis
          unfolding eq session_started_def by blast
      qed
    qed
  qed
  with act auth port show ?thesis by simp
qed

lemma handle_keeps_connected:
  assumes "handle_comm_message w d c = Inr c'" and "connected c"
  shows "connected c'"
  using assms
  by (auto simp: handle_comm_message_def handle_auth_def handle_connect_def send_defs Let_def
      split: option.splits if_splits)

lemma handle_all_keeps_connected:
  "connected c \<Longrightarrow> connected (handle_all msgs c)"
proof (induction msgs arbitrary: c)
  case Nil
  then show ?case by simp
next
  case (Cons m msgs)
  obtain w d where m: "m = (w, d)" by (cases m)
  show ?case
  proof (cases "handle_comm_message w d c")
    case (Inl e)
    with Cons m show ?thesis by simp
  next
    case (Inr c')
    from handle_keeps_connected [OF Inr Cons.prems] have "connected c'" .
    with Cons.IH Inr m show ?thesis by simp
  qed
qed

lemma handle_all_connects:
  "\<not> connected c \<Longrightarrow> connected (handle_all msgs c) \<Longrightarrow>
     \<exists>(w, d) \<in> set msgs. \<exists>c0 c1. \<not> connected c0 \<and> handle_comm_message w d c0 = Inr c1 \<and>
        connected c1"
proof (induction msgs arbitrary: c)
  case Nil
  then show ?case by simp
next
  case (Cons m msgs)
  obtain w d where m: "m = (w, d)" by (cases m)
  show ?case
  proof (cases "handle_comm_message w d c")
    case (Inl e)
    with Cons m show ?thesis by auto
  next
    case (Inr c')
    show ?thesis
    proof (cases "connected c'")
      case True
      with Inr Cons.prems(1) m show ?thesis by auto
    next
      case False
      with Cons.IH [of c'] Cons.prems(2) Inr m show ?thesis by auto
    qed
  qed
qed

text \<open>
  Claim C7. The connected flag is false after \<open>__init__\<close>; once true it stays true
  through any run of messages; one message turns it from false to true only if it is a
  connect message that passed the credentials check, found the port free and created
  the session; a run from the initial connector that ends connected contains such a
  message; and a connect message received while connected only adds the reply
  \<open>sparkconn-connected\<close> to the messages sent.
\<close>

theorem connected_only_forward:
  "\<not> connected (init w0 log4j ns) \<and>
   (connected c \<longrightarrow> connected (handle_all msgs c)) \<and>
   (\<not> connected c \<and> handle_comm_message w d c = Inr c' \<and> connected c' \<longrightarrow>
      action d = Some ''sparkconn-action-connect'' \<and> \<not> (needs_auth c \<and> klist w \<noteq> 0) \<and>
      is_port_in_use w = Inr False \<and> session_started w d c c') \<and>
   (connected (handle_all msgs (init w0 log4j ns)) \<longrightarrow>
      (\<exists>(w, d) \<in> set msgs. \<exists>c0 c1. \<not> connected c0 \<and>
          handle_comm_message w d c0 = Inr c1 \<and> session_started w d c0 c1)) \<and>
   (connected c \<and> action d = Some ''sparkconn-action-connect'' \<longrightarrow>
      handle_comm_message w d c =
        Inr (c\<lparr>sent := sent c @ [[(''msgtype'', PyStr ''sparkconn-connected'')]]\<rparr>))"
proof (intro conjI impI)
  show "\<not> connected (init w0 log4j ns)" by (simp add: init_def)
next
  assume "connected c"
  then show "connected (handle_all msgs c)" by (rule handle_all_keeps_connected)
next
  assume a: "\<not> connected c \<and> handle_comm_message w d c = Inr c' \<and> connected c'"
  with handle_flip [of w d c c']
  show "action d = Some ''sparkconn-action-connect''" "\<not> (needs_auth c \<and> klist w \<noteq> 0)"
    "is_port_in_use w = Inr False" "session_started w d c c'"
    by blast+
next
  assume a: "connected (handle_all msgs (init w0 log4j ns))"
  have "\<not> connected (init w0 log4j ns)" by (simp add: init_def)
  from handle_all_connects [OF this a]
  obtain w d c0 c1 where "(w, d) \<in> set msgs" "\<not> connected c0"
    "handle_comm_message w d c0 = Inr c1" "connected c1"
    by auto
  with handle_flip [of w d c0 c1]
  show "\<exists>(w, d) \<in> set msgs. \<exists>c0 c1. \<not> connected c0 \<and>
          handle_comm_message w d c0 = Inr c1 \<and> session_started w d c0 c1"
    by blast
next
  assume "connected c \<and> action d = Some ''sparkconn-action-connect''"
  then show "handle_comm_message w d c =
        Inr (c\<lparr>sent := sent c @ [[(''msgtype'', PyStr ''sparkconn-connected'')]]\<rparr>)"
    by (simp add: handle_comm_message_def handle_connect_def send_defs)
qed

text \<open>
  The theorem at the example: a connect on a free port, then a failed auth and a second
  connect, which is only answered.
\<close>

theorem connected_only_forward_witness:
  "\<not> connected example_connector \<and>
   connected (handle_all [(free_world, connect_msg)] example_connector) \<and>
   connected (handle_all [(free_world, connect_msg), (example_world, auth_msg ''guess''),
                          (example_world, connect_msg)] example_connector) \<and>
   map (map fst) (sent (handle_all [(free_world, connect_msg), (example_world, auth_msg ''guess''),
                          (example_world, connect_msg)] example_connector)) =
     [[''msgtype''], [''msgtype'', ''error''], [''msgtype'']] \<and>
   length (push_calls (handle_all [(free_world, connect_msg), (example_world, auth_msg ''guess''),
                          (example_world, connect_msg)] example_connector)) = 1"
  using connected_only_forward [of example_world "''/tmp/log4j.properties''" Map.empty
      "handle_all [(free_world, connect_msg)] example_connector"
      "[(example_world, auth_msg ''guess''), (example_world, connect_msg)]"
      free_world connect_msg "handle_all [(free_world, connect_msg)] example_connector"]
  by (simp add: example_defs free_world_def is_port_in_use_def handle_comm_message_def
      handle_connect_def handle_auth_def send_defs connect_fresh_def connect_session_def
      configure_def store_conf_def push_def session_vars_def Let_def)

subsection \<open>LogReader\<close>

lemma follow_lines:
  "fst (follow ps) =
     filter (\<lambda>l. l \<noteq> []) (concat (map (\<lambda>p. case p of Connected \<Rightarrow> [] | Readline l \<Rightarrow> [l])
       (takeWhile (\<lambda>p. p \<noteq> Connected) ps)))"
  by (induction ps rule: follow.induct) (auto split: prod.splits)

lemma follow_returns: "snd (follow ps) = (Connected \<in> set ps)"
  by (induction ps rule: follow.induct) (auto split: prod.splits)

lemma follow_stops: "follow (ps @ Connected # later) = follow (ps @ [Connected])"
  by (induction ps rule: follow.induct) (simp_all split: prod.splits)

lemma send_lines:
  "foldl (\<lambda>c line. send (f line) c) c ls = c\<lparr>sent := sent c @ map f ls\<rparr>"
  by (induction ls arbitrary: c) (simp_all add: send_def)

text \<open>
  Claim C6. The thread forwards every non-empty line that \<open>readline\<close> returns before the
  loop head first reads the flag as true, in order, each as one message of type
  \<open>sparkconn-action-log\<close> carrying the stripped line, and changes nothing else of the
  connector. \<open>run\<close> returns, ending the thread, exactly when the loop head reads the
  flag as true; whatever is appended to the file after that is neither read nor
  forwarded.
\<close>

theorem log_reader_forwards:
  "sent (fst (run ps c)) =
     sent c @
     map (\<lambda>line. [(''msgtype'', PyStr ''sparkconn-action-log''), (''msg'', PyStr (strip line))])
       (filter (\<lambda>l. l \<noteq> [])
          (concat (map (\<lambda>p. case p of Connected \<Rightarrow> [] | Readline l \<Rightarrow> [l])
             (takeWhile (\<lambda>p. p \<noteq> Connected) ps)))) \<and>
   fst (run ps c) = c\<lparr>sent := sent (fst (run ps c))\<rparr> \<and>
   snd (run ps c) = (Connected \<in> set ps) \<and>
   run (ps @ Connected # later) c = run (ps @ [Connected]) c \<and>
   snd (run (ps @ Connected # later) c)"
proof -
  obtain ls fin where f: "follow ps = (ls, fin)" by (cases "follow ps")
  have ls: "ls = filter (\<lambda>l. l \<noteq> [])
      (concat (map (\<lambda>p. case p of Connected \<Rightarrow> [] | Readline l \<Rightarrow> [l])
         (takeWhile (\<lambda>p. p \<noteq> Connected) ps)))"
    using follow_lines [of ps] f by simp
  have fin: "fin = (Connected \<in> set ps)"
    using follow_returns [of ps] f by simp
  have r: "run ps c = (c\<lparr>sent := sent c @
      map (\<lambda>line. [(''msgtype'', PyStr ''sparkconn-action-log''), (''msg'', PyStr (strip line))]) ls\<rparr>,
      fin)"
    by (simp add: run_def f send_lines)
  have stop: "run (ps @ Connected # later) c = run (ps @ [Connected]) c"
    by (simp add: run_def follow_stops [of ps later])
  have "snd (run (ps @ Connected # later) c) = snd (follow (ps @ Connected # later))"
    by (simp add: run_def split: prod.splits)
  then have ret: "snd (run (ps @ Connected # later) c)"
    by (simp add: follow_returns)
  from r ls fin have "sent (fst (run ps c)) =
     sent c @
     map (\<lambda>line. [(''msgtype'', PyStr ''sparkconn-action-log''), (''msg'', PyStr (strip line))])
       (filter (\<lambda>l. l \<noteq> [])
          (concat (map (\<lambda>p. case p of Connected \<Rightarrow> [] | Readline l \<Rightarrow> [l])
             (takeWhile (\<lambda>p. p \<noteq> Connected) ps)))) \<and>
   fst (run ps c) = c\<lparr>sent := sent (fst (run ps c))\<rparr> \<and>
   snd (run ps c) = (Connected \<in> set ps)"
    by simp
  with stop ret show ?thesis by blast
qed

text \<open>
  The theorem at the example connector: two lines are appended and read, the flag is
  then read as true, and a third line appended later is not forwarded.
\<close>

theorem log_reader_forwards_witness:
  "run [Readline ''INFO start\<newline>'', Readline [], Readline ''  WARN x \<newline>'',
        Connected, Readline ''late\<newline>''] example_connector =
     (example_connector\<lparr>sent :=
        [[(''msgtype'', PyStr ''sparkconn-action-log''), (''msg'', PyStr ''INFO start'')],
         [(''msgtype'', PyStr ''sparkconn-action-log''), (''msg'', PyStr ''WARN x'')]]\<rparr>, True) \<and>
   \<not> snd (run [Readline ''INFO start\<newline>'', Readline []] example_connector)"
proof -
  let ?a = "Readline ''INFO start\<newline>''"
  let ?b = "Readline ''  WARN x \<newline>''"
  let ?l = "Readline ''late\<newline>''"
  have s: "sent example_connector = []"
    by (simp add: example_defs)
  have st: "strip ''INFO start\<newline>'' = ''INFO start''"
    "strip ''  WARN x \<newline>'' = ''WARN x''"
    by (simp_all add: strip_def isspace_def)
  note T = log_reader_forwards [of "[?a, Readline [], ?b]" example_connector "[?l]"]
  note U = log_reader_forwards [of "[?a, Readline []]" example_connector "[]"]
  from T have stop: "run [?a, Readline [], ?b, Connected, ?l] example_connector =
      run [?a, Readline [], ?b, Connected] example_connector"
    by simp
  note V = log_reader_forwards [of "[?a, Readline [], ?b, Connected]" example_connector "[]"]
  from V have sent': "sent (fst (run [?a, Readline [], ?b, Connected] example_connector)) =
       [[(''msgtype'', PyStr ''sparkconn-action-log''), (''msg'', PyStr ''INFO start'')],
        [(''msgtype'', PyStr ''sparkconn-action-log''), (''msg'', PyStr ''WARN x'')]]"
    by (simp add: s st)
  from V have same: "fst (run [?a, Readline [], ?b, Connected] example_connector) =
      example_connector\<lparr>sent := sent (fst (run [?a, Readline [], ?b, Connected] example_connector))\<rparr>"
    by blast
  from V have ret: "snd (run [?a, Readline [], ?b, Connected] example_connector)"
    by simp
  from U have nret: "\<not> snd (run [?a, Readline []] example_connector)"
    by simp
  have "run [?a, Readline [], ?b, Connected] example_connector =
     (example_connector\<lparr>sent :=
        [[(''msgtype'', PyStr ''sparkconn-action-log''), (''msg'', PyStr ''INFO start'')],
         [(''msgtype'', PyStr ''sparkconn-action-log''), (''msg'', PyStr ''WARN x'')]]\<rparr>, True)"
    using same ret unfolding sent' by (simp add: prod_eq_iff)
  with stop nret show ?thesis by simp
qed

section \<open>Properties of the contents manager mixin\<close>

subsection \<open>Strings and paths\<close>

lemma replace_first_prefix:
  "old \<noteq> [] \<Longrightarrow> replace_first old new (old @ r) = new @ r"
  by (cases old) simp_all

lemma split_on_not_Nil: "split_on c s \<noteq> []"
  by (induction s) (auto split: list.splits)

lemma join_split_on: "join_on c (split_on c s) = s"
proof (induction s)
  case Nil
  then show ?case by simp
next
  case (Cons x xs)
  obtain w ws where ws: "split_on c xs = w # ws"
    using split_on_not_Nil [of c xs] by (cases "split_on c xs") auto
  with Cons show ?case by (cases ws) auto
qed

lemma split_on_no_sep: "w \<in> set (split_on c s) \<Longrightarrow> c \<notin> set w"
proof (induction s arbitrary: w)
  case Nil
  then show ?case by simp
next
  case (Cons x xs)
  then show ?case
    by (auto split: if_splits list.splits)
qed

lemma split_on_plain: "c \<notin> set a \<Longrightarrow> split_on c a = [a]"
  by (induction a) auto

lemma split_on_append: "c \<notin> set a \<Longrightarrow> split_on c (a @ c # r) = a # split_on c r"
  by (induction a) auto

lemma split_on_two:
  "(length (split_on c s) = 2 \<and> split_on c s ! 0 = a) \<longleftrightarrow>
     (\<exists>b. s = a @ c # b \<and> c \<notin> set a \<and> c \<notin> set b)"
proof
  assume l: "length (split_on c s) = 2 \<and> split_on c s ! 0 = a"
  then obtain b where ab: "split_on c s = [a, b]"
    by (cases "split_on c s"; cases "tl (split_on c s)") auto
  have "s = join_on c [a, b]" using join_split_on [of c s] ab by simp
  moreover have "c \<notin> set a" "c \<notin> set b"
    using split_on_no_sep [of _ c s] ab by auto
  ultimately show "\<exists>b. s = a @ c # b \<and> c \<notin> set a \<and> c \<notin> set b" by auto
next
  assume "\<exists>b. s = a @ c # b \<and> c \<notin> set a \<and> c \<notin> set b"
  then show "length (split_on c s) = 2 \<and> split_on c s ! 0 = a"
    by (auto simp: split_on_append split_on_plain)
qed

lemma is_swan_root_folder_layout:
  "is_swan_root_folder M (root_dir M @ ''/'' @ p) \<longleftrightarrow>
     (\<exists>name. p = swan_default_folder M @ ''/'' @ name \<and>
        CHR ''/'' \<notin> set (swan_default_folder M) \<and> CHR ''/'' \<notin> set name)"
proof -
  have "replace_first (root_dir M @ ''/'') [] (root_dir M @ ''/'' @ p) = p"
    using replace_first_prefix [of "root_dir M @ ''/''" "[]" p] by simp
  then show ?thesis
    using split_on_two [of "CHR ''/''" p "swan_default_folder M"]
    by (simp add: is_swan_root_folder_def Let_def)
qed

lemma contains_swan_folder_name_layout:
  "contains_swan_folder_name M (root_dir M @ ''/'' @ swan_default_folder M @ ''/'' @ rest) \<longleftrightarrow>
     swan_default_folder M \<in> set (split_on CHR ''/'' rest)"
proof -
  have "replace_first (root_dir M @ ''/'' @ swan_default_folder M @ ''/'') []
          (root_dir M @ ''/'' @ swan_default_folder M @ ''/'' @ rest) = rest"
    using replace_first_prefix [of "root_dir M @ ''/'' @ swan_default_folder M @ ''/''" "[]" rest]
    by simp
  then show ?thesis
    by (simp add: contains_swan_folder_name_def Let_def)
qed


subsection \<open>get\<close>

lemma get_unfold:
  assumes "p = strip_char CHR ''/'' path" and "p = swan_default_folder M \<or> exists M p s"
  shows "get M path content type format s =
     (case ensure_root M p s of
        (s1, Inl e) \<Rightarrow> (s1, Inl e)
      | (s1, Inr u) \<Rightarrow>
          if is_project_dir M p s1 then
            (if type \<notin> {VNone, VStr ''project'', VStr ''directory''}
             then (s1, Inl (HTTPError 400)) else proj_model M p content s1)
          else super_get M p content type format s1)"
  using assms
  by (auto simp: get_def ensure_root_def is_project_dir_def Let_def split: prod.splits sum.splits)

lemma dir_model_not_project:
  "dir_model M q content s = (s', Inr m) \<Longrightarrow> m ''is_project'' = Some (VBool False)"
  by (auto simp: dir_model_def Let_def split: prod.splits sum.splits option.splits if_splits)

lemma proj_model_is_project:
  "proj_model M p content s = (s', Inr m) \<Longrightarrow> m ''is_project'' = Some (VBool True)"
  by (auto simp: proj_model_def split: prod.splits sum.splits)

lemmas example_cm_defs = example_manager_def example_fs_def example_os_path_def
  example_super_get_def strip_char_def path_join_def suffix_to_prefix

lemmas example_get_defs = get_def proj_model_def ensure_root_def is_project_dir_def Let_def

text \<open>
  Claim C1. Let the path, stripped of slashes, exist, and let the projects-folder step
  of \<open>get\<close> return (it does nothing unless the path is the projects folder itself and
  not a directory). If the path is a directory that holds the sentinel file, \<open>get\<close>
  returns the project model, whose \<open>is_project\<close> is \<open>True\<close>, for the types \<open>None\<close>,
  \<open>project\<close> and \<open>directory\<close>, and raises HTTP 400 for any other type. For every
  other existing path \<open>get\<close> returns what the inherited \<open>get\<close> returns. So, as long as
  the inherited \<open>get\<close> never sets \<open>is_project\<close> to \<open>True\<close>, a model that \<open>get\<close>
  returns has \<open>is_project = True\<close> exactly when the path is such a project; the
  directory models that the mixin's own \<open>_dir_model\<close> builds have \<open>is_project = False\<close>.
\<close>

theorem get_existing_path:
  assumes p: "p = strip_char CHR ''/'' path"
      and ex: "exists M p s"
      and root: "ensure_root M p s = (s1, Inr ())"
  shows "(\<forall>q c sx sy m. dir_model M q c sx = (sy, Inr m) \<longrightarrow>
            m ''is_project'' = Some (VBool False)) \<and>
         (is_project_dir M p s1 \<and> type \<in> {VNone, VStr ''project'', VStr ''directory''} \<longrightarrow>
            get M path content type format s = proj_model M p content s1 \<and>
            (\<forall>s' m. get M path content type format s = (s', Inr m) \<longrightarrow>
               m ''is_project'' = Some (VBool True))) \<and>
         (is_project_dir M p s1 \<and> type \<notin> {VNone, VStr ''project'', VStr ''directory''} \<longrightarrow>
            get M path content type format s = (s1, Inl (HTTPError 400))) \<and>
         (\<not> is_project_dir M p s1 \<longrightarrow>
            get M path content type format s = super_get M p content type format s1) \<and>
         ((\<forall>s' m. super_get M p content type format s1 = (s', Inr m) \<longrightarrow>
               m ''is_project'' \<noteq> Some (VBool True)) \<longrightarrow>
          (\<forall>s' m. get M path content type format s = (s', Inr m) \<longrightarrow>
             (m ''is_project'' = Some (VBool True) \<longleftrightarrow> is_project_dir M p s1))) \<and>
         (p \<noteq> swan_default_folder M \<or> is_dir M (get_os_path M p) s \<longrightarrow> s1 = s)"
proof (rule conjI)
  show "\<forall>q c sx sy m. dir_model M q c sx = (sy, Inr m) \<longrightarrow>
            m ''is_project'' = Some (VBool False)"
    by (intro allI impI) (rule dir_model_not_project)
next
  have g: "get M path content type format s =
     (if is_project_dir M p s1 then
            (if type \<notin> {VNone, VStr ''project'', VStr ''directory''}
             then (s1, Inl (HTTPError 400)) else proj_model M p content s1)
          else super_get M p content type format s1)"
    using get_unfold [OF p, of M s content type format] ex root by simp
  have s1: "p \<noteq> swan_default_folder M \<or> is_dir M (get_os_path M p) s \<longrightarrow> s1 = s"
    using root by (auto simp: ensure_root_def split: if_splits)
  show "(is_project_dir M p s1 \<and> type \<in> {VNone, VStr ''project'', VStr ''directory''} \<longrightarrow>
            get M path content type format s = proj_model M p content s1 \<and>
            (\<forall>s' m. get M path content type format s = (s', Inr m) \<longrightarrow>
               m ''is_project'' = Some (VBool True))) \<and>
         (is_project_dir M p s1 \<and> type \<notin> {VNone, VStr ''project'', VStr ''directory''} \<longrightarrow>
            get M path content type format s = (s1, Inl (HTTPError 400))) \<and>
         (\<not> is_project_dir M p s1 \<longrightarrow>
            get M path content type format s = super_get M p content type format s1) \<and>
         ((\<forall>s' m. super_get M p content type format s1 = (s', Inr m) \<longrightarrow>
               m ''is_project'' \<noteq> Some (VBool True)) \<longrightarrow>
          (\<forall>s' m. get M path content type format s = (s', Inr m) \<longrightarrow>
             (m ''is_project'' = Some (VBool True) \<longleftrightarrow> is_project_dir M p s1))) \<and>
         (p \<noteq> swan_default_folder M \<or> is_dir M (get_os_path M p) s \<longrightarrow> s1 = s)"
    using g s1 proj_model_is_project [of M p content s1]
    by (auto simp del: insert_iff)
qed


text \<open>The theorem at a project, at a plain directory and at a project asked for as a file.\<close>

theorem get_existing_path_witness:
  "exists example_manager ''SWAN_projects/demo'' example_fs \<and>
   ensure_root example_manager ''SWAN_projects/demo'' example_fs = (example_fs, Inr ()) \<and>
   is_project_dir example_manager ''SWAN_projects/demo'' example_fs \<and>
   get example_manager ''/SWAN_projects/demo/'' True VNone VNone example_fs =
     (example_fs, Inr [''path'' \<mapsto> VStr ''SWAN_projects/demo'', ''type'' \<mapsto> VStr ''directory'',
        ''is_project'' \<mapsto> VBool True]) \<and>
   get example_manager ''/SWAN_projects/demo/'' True (VStr ''file'') VNone example_fs =
     (example_fs, Inl (HTTPError 400)) \<and>
   exists example_manager ''notes'' example_fs \<and>
   ensure_root example_manager ''notes'' example_fs = (example_fs, Inr ()) \<and>
   \<not> is_project_dir example_manager ''notes'' example_fs \<and>
   get example_manager ''notes'' True VNone VNone example_fs =
     (example_fs, Inr [''path'' \<mapsto> VStr ''notes'', ''type'' \<mapsto> VStr ''directory'',
        ''is_project'' \<mapsto> VBool False])"
proof -
  have p: "''SWAN_projects/demo'' = strip_char CHR ''/'' ''/SWAN_projects/demo/''"
    and q: "''notes'' = strip_char CHR ''/'' ''notes''"
    by (simp_all add: strip_char_def)
  have ex: "exists example_manager ''SWAN_projects/demo'' example_fs"
    and root: "ensure_root example_manager ''SWAN_projects/demo'' example_fs = (example_fs, Inr ())"
    and proj: "is_project_dir example_manager ''SWAN_projects/demo'' example_fs"
    and ex': "exists example_manager ''notes'' example_fs"
    and root': "ensure_root example_manager ''notes'' example_fs = (example_fs, Inr ())"
    and plain: "\<not> is_project_dir example_manager ''notes'' example_fs"
    by (simp_all add: example_get_defs example_cm_defs)
  have "get example_manager ''/SWAN_projects/demo/'' True VNone VNone example_fs =
          proj_model example_manager ''SWAN_projects/demo'' True example_fs"
    using get_existing_path [OF p ex root, of VNone True VNone, THEN conjunct2] proj by simp
  moreover have "get example_manager ''/SWAN_projects/demo/'' True (VStr ''file'') VNone example_fs =
          (example_fs, Inl (HTTPError 400))"
    using get_existing_path [OF p ex root, of "VStr ''file''" True VNone, THEN conjunct2] proj by simp
  moreover have "get example_manager ''notes'' True VNone VNone example_fs =
          super_get example_manager ''notes'' True VNone VNone example_fs"
    using get_existing_path [OF q ex' root', of VNone True VNone, THEN conjunct2] plain by simp
  moreover have "proj_model example_manager ''SWAN_projects/demo'' True example_fs =
     (example_fs, Inr [''path'' \<mapsto> VStr ''SWAN_projects/demo'', ''type'' \<mapsto> VStr ''directory'',
        ''is_project'' \<mapsto> VBool True])"
    by (simp add: proj_model_def example_manager_def)
  moreover have "super_get example_manager ''notes'' True VNone VNone example_fs =
     (example_fs, Inr [''path'' \<mapsto> VStr ''notes'', ''type'' \<mapsto> VStr ''directory'',
        ''is_project'' \<mapsto> VBool False])"
    by (simp add: example_cm_defs)
  ultimately show ?thesis
    using ex root proj ex' root' plain by simp
qed


text \<open>
  Claim C10. Let the path, stripped of slashes, be the projects folder. If it is not a
  directory, \<open>get\<close> creates it with \<open>_mkdir\<close> and returns what the inherited \<open>get\<close>
  returns for it afterwards; if it is one, \<open>get\<close> returns the inherited model at once
  (in both cases unless the folder itself holds the sentinel file). \<open>get\<close> raises no
  404 there, as long as \<open>_mkdir\<close> raises none and, in the storage that the creation
  step leaves, the inherited \<open>_dir_model\<close> and \<open>get\<close> raise none for the folder. For
  any other path that does not exist, \<open>get\<close> raises HTTP 404 and leaves the storage as
  it is.
\<close>

theorem get_root_never_404:
  assumes p: "strip_char CHR ''/'' path = swan_default_folder M"
      and os: "os_path = get_os_path M (swan_default_folder M)"
  shows "(\<not> is_dir M os_path s \<and> mkdir M os_path s = (sk, Inr ()) \<and>
          \<not> is_project_dir M (swan_default_folder M) sk \<longrightarrow>
            get M path content type format s =
              super_get M (swan_default_folder M) content type format sk) \<and>
         (is_dir M os_path s \<and> \<not> is_project_dir M (swan_default_folder M) s \<longrightarrow>
            get M path content type format s =
              super_get M (swan_default_folder M) content type format s) \<and>
         (ensure_root M (swan_default_folder M) s = (sk, r) \<and> r \<noteq> Inl (HTTPError 404) \<and>
          snd (super_dir_model M (swan_default_folder M) content sk) \<noteq> Inl (HTTPError 404) \<and>
          snd (super_get M (swan_default_folder M) content type format sk)
            \<noteq> Inl (HTTPError 404) \<longrightarrow>
            snd (get M path content type format s) \<noteq> Inl (HTTPError 404)) \<and>
         (strip_char CHR ''/'' path' \<noteq> swan_default_folder M \<and>
          \<not> exists M (strip_char CHR ''/'' path') s \<longrightarrow>
            get M path' content type format s = (s, Inl (HTTPError 404)))"
proof (intro conjI impI)
  assume a: "\<not> is_dir M os_path s \<and> mkdir M os_path s = (sk, Inr ()) \<and>
          \<not> is_project_dir M (swan_default_folder M) sk"
  then show "get M path content type format s =
              super_get M (swan_default_folder M) content type format sk"
    using get_unfold [of "swan_default_folder M" path M s content type format] p os
    by (simp add: ensure_root_def)
next
  assume a: "is_dir M os_path s \<and> \<not> is_project_dir M (swan_default_folder M) s"
  then show "get M path content type format s =
              super_get M (swan_default_folder M) content type format s"
    using get_unfold [of "swan_default_folder M" path M s content type format] p os
    by (simp add: ensure_root_def)
next
  assume a: "ensure_root M (swan_default_folder M) s = (sk, r) \<and> r \<noteq> Inl (HTTPError 404) \<and>
          snd (super_dir_model M (swan_default_folder M) content sk) \<noteq> Inl (HTTPError 404) \<and>
          snd (super_get M (swan_default_folder M) content type format sk)
            \<noteq> Inl (HTTPError 404)"
  have pm: "snd (proj_model M (swan_default_folder M) content sk) \<noteq> Inl (HTTPError 404)"
    using a
    by (cases "super_dir_model M (swan_default_folder M) content sk")
       (auto simp: proj_model_def split: sum.splits)
  have g: "get M path content type format s =
     (case ensure_root M (swan_default_folder M) s of
        (sa, Inl e) \<Rightarrow> (sa, Inl e)
      | (sa, Inr u) \<Rightarrow>
          if is_project_dir M (swan_default_folder M) sa then
            (if type \<notin> {VNone, VStr ''project'', VStr ''directory''}
             then (sa, Inl (HTTPError 400)) else proj_model M (swan_default_folder M) content sa)
          else super_get M (swan_default_folder M) content type format sa)"
    using get_unfold [of "swan_default_folder M" path M s content type format] p by simp
  show "snd (get M path content type format s) \<noteq> Inl (HTTPError 404)"
    using a pm unfolding g by (cases r) auto
next
  assume "strip_char CHR ''/'' path' \<noteq> swan_default_folder M \<and>
          \<not> exists M (strip_char CHR ''/'' path') s"
  then show "get M path' content type format s = (s, Inl (HTTPError 404))"
    by (simp add: get_def Let_def)
qed

text \<open>The theorem on an empty storage and at a missing path.\<close>

theorem get_root_never_404_witness:
  "strip_char CHR ''/'' ''/SWAN_projects'' = swan_default_folder example_manager \<and>
   \<not> is_dir example_manager ''/home/u/SWAN_projects'' [] \<and>
   mkdir example_manager ''/home/u/SWAN_projects'' [] =
     ([(''/home/u/SWAN_projects'', DirNode)], Inr ()) \<and>
   get example_manager ''/SWAN_projects'' True VNone VNone [] =
     ([(''/home/u/SWAN_projects'', DirNode)],
      Inr [''path'' \<mapsto> VStr ''SWAN_projects'', ''type'' \<mapsto> VStr ''directory'',
        ''is_project'' \<mapsto> VBool False]) \<and>
   snd (get example_manager ''/SWAN_projects'' True VNone VNone []) \<noteq> Inl (HTTPError 404) \<and>
   snd (get example_manager ''/SWAN_projects'' True (VStr ''file'') VNone [])
     \<noteq> Inl (HTTPError 404) \<and>
   \<not> exists example_manager (strip_char CHR ''/'' ''nothing'') example_fs \<and>
   get example_manager ''nothing'' True VNone VNone example_fs = (example_fs, Inl (HTTPError 404))"
proof -
  let ?M = example_manager
  let ?made = "[(''/home/u/SWAN_projects'', DirNode)]"
  have p: "strip_char CHR ''/'' ''/SWAN_projects'' = swan_default_folder ?M"
    and os: "''/home/u/SWAN_projects'' = get_os_path ?M (swan_default_folder ?M)"
    and nd: "\<not> is_dir ?M ''/home/u/SWAN_projects'' []"
    and mk: "mkdir ?M ''/home/u/SWAN_projects'' [] = (?made, Inr ())"
    and er: "ensure_root ?M (swan_default_folder ?M) [] = (?made, Inr ())"
    and np: "\<not> is_project_dir ?M (swan_default_folder ?M) ?made"
    and other: "strip_char CHR ''/'' ''nothing'' \<noteq> swan_default_folder ?M"
    and ne: "\<not> exists ?M (strip_char CHR ''/'' ''nothing'') example_fs"
    by (simp_all add: example_get_defs example_cm_defs)
  have dm: "snd (super_dir_model ?M (swan_default_folder ?M) True ?made) \<noteq> Inl (HTTPError 404)"
    and sg: "snd (super_get ?M (swan_default_folder ?M) True VNone VNone ?made)
               \<noteq> Inl (HTTPError 404)"
    and sg': "snd (super_get ?M (swan_default_folder ?M) True (VStr ''file'') VNone ?made)
               \<noteq> Inl (HTTPError 404)"
    by (simp_all add: example_cm_defs)
  have ok: "(Inr () :: exn + unit) \<noteq> Inl (HTTPError 404)" by simp
  note T = get_root_never_404 [OF p os, where s = "[]" and sk = ?made and content = True
      and type = VNone and format = VNone and path' = "''nothing''" and r = "Inr ()"]
  note T' = get_root_never_404 [OF p os, where s = "[]" and sk = ?made and content = True
      and type = "VStr ''file''" and format = VNone and path' = "''nothing''" and r = "Inr ()"]
  have "get ?M ''/SWAN_projects'' True VNone VNone [] =
          super_get ?M (swan_default_folder ?M) True VNone VNone ?made"
    using T nd mk np by simp
  moreover have "super_get ?M (swan_default_folder ?M) True VNone VNone ?made =
     (?made, Inr [''path'' \<mapsto> VStr ''SWAN_projects'', ''type'' \<mapsto> VStr ''directory'',
        ''is_project'' \<mapsto> VBool False])"
    by (simp add: example_cm_defs)
  moreover have "snd (get ?M ''/SWAN_projects'' True VNone VNone []) \<noteq> Inl (HTTPError 404)"
    using T er ok dm sg by simp
  moreover have "snd (get ?M ''/SWAN_projects'' True (VStr ''file'') VNone [])
                   \<noteq> Inl (HTTPError 404)"
    using T' er ok dm sg' by simp
  moreover have "get ?M ''nothing'' True VNone VNone example_fs =
          (example_fs, Inl (HTTPError 404))"
    using get_root_never_404 [OF p os, where s = example_fs and sk = example_fs and content = True
      and type = VNone and format = VNone and path' = "''nothing''"]
      other ne
    by simp
  ultimately show ?thesis using p nd mk ne by simp
qed

subsection \<open>save and update\<close>

lemma save_unfold:
  assumes "no_chunk model0" and "p = strip_char CHR ''/'' path"
      and "run_pre_save_hook M model0 p s = (s1, Inr m)"
  shows "save M model0 path s =
     (if m ''type'' = None then (s1, Inl (HTTPError 400))
      else if m ''content'' = None \<and> m ''type'' \<noteq> Some (VStr ''directory'')
                     \<and> m ''type'' \<noteq> Some (VStr ''project'')
      then (s1, Inl (HTTPError 400))
      else if contains_swan_folder_name M (get_os_path M p) then (s1, Inl (HTTPError 400))
      else (case save_try M (get_os_path M p) m p s1 of
              (s2, Inl e) \<Rightarrow> (s2, Inl (save_except e))
            | (s2, Inr validation_error) \<Rightarrow>
                save_finish M (get_os_path M p) m p validation_error s2))"
  using assms by (auto simp: save_def no_chunk_def Let_def)

lemma save_restricted_name:
  assumes "no_chunk model0" and "p = strip_char CHR ''/'' path"
      and "run_pre_save_hook M model0 p s = (s1, Inr m)"
      and "contains_swan_folder_name M (get_os_path M p)"
  shows "save M model0 path s = (s1, Inl (HTTPError 400))"
  using assms(4) by (simp add: save_unfold [OF assms(1-3)])

lemma update_restricted_name:
  "contains_swan_folder_name M (get_os_path M path) \<Longrightarrow>
     update M m path s = (s, Inl (HTTPError 400))"
  by (simp add: update_def)


lemmas example_save_defs = save_def save_try_def save_finish_def save_project_def
  contains_swan_folder_name_def is_swan_root_folder_def get_def proj_model_def Let_def
  file_model_def project_model_def no_chunk_def







subsection \<open>move\_folder and download\<close>















lemmas example_dl_defs = download_def download_file_def move_folder_def download_model_def
  path_join3_def basename_def splitext_root_def replace_all_def example_host_def Let_def


lemmas example_fs_defs = example_tmp_fs_def example_clone_fs_def example_project_fs_def





text \<open>
  Two more inputs on which \<open>download\<close> returns no usable model: the name \<open>zipfile\<close> is
  not imported, so a fetched \<open>.zip\<close> raises \<open>NameError\<close>; and the root directory is
  replaced wherever it occurs, so with the root \<open>/u\<close> the clone of \<open>u.git\<close> is reported
  at the projects folder itself.
\<close>

lemma download_zip_raises:
  "download example_host example_manager ''https://example.org/files/archive.zip'' example_fs =
   Some (example_tmp_fs,
     Inl (Raised (PyExc ''NameError'' (''name '' @ sq @ ''zipfile'' @ sq @ '' is not defined''))))"
  by (simp add: example_dl_defs example_cm_defs example_fs_defs)

lemma download_root_twice:
  "download example_host (example_manager\<lparr>root_dir := ''/u''\<rparr>) ''https://github.com/x/u.git''
     example_fs =
   Some (example_project_fs ''/u/SWAN_projects/u'',
         Inr [''type'' \<mapsto> VStr ''directory'', ''path'' \<mapsto> VStr ''SWAN_projects''])"
  by (simp add: example_dl_defs example_cm_defs example_fs_defs)

text \<open>
  Claim C9 at a failing input. The path \<open>SWAN_projects/SWAN_projects\<close> has a component
  with the restricted name, and \<open>update\<close> and \<open>save\<close> refuse it with HTTP 400 and
  leave the storage as it is. \<open>download\<close> of a repository named \<open>SWAN_projects.git\<close>
  makes no such check: it moves the clone to that very path and returns it.
\<close>

theorem download_creates_restricted_name:
  "contains_swan_folder_name example_manager
     (get_os_path example_manager ''SWAN_projects/SWAN_projects'') \<and>
   update example_manager project_model ''SWAN_projects/SWAN_projects'' example_fs =
     (example_fs, Inl (HTTPError 400)) \<and>
   save example_manager [''type'' \<mapsto> VStr ''directory''] ''SWAN_projects/SWAN_projects'' example_fs =
     (example_fs, Inl (HTTPError 400)) \<and>
   download example_host example_manager ''https://github.com/u/SWAN_projects.git'' example_fs =
     Some (example_project_fs ''/home/u/SWAN_projects/SWAN_projects'',
           Inr [''type'' \<mapsto> VStr ''directory'',
                ''path'' \<mapsto> VStr ''SWAN_projects/SWAN_projects'']) \<and>
   is_dir example_manager ''/home/u/SWAN_projects/SWAN_projects''
     (example_project_fs ''/home/u/SWAN_projects/SWAN_projects'')"
  by (simp add: example_dl_defs example_cm_defs example_fs_defs example_save_defs update_def)

end
